theory Spec2Isabelle
  imports Main "HOL-Library.Char_ord" "HOL-Library.List_Lexorder"
begin

text \<open>
  The offline mutation queue and the sync engine of the rep dashboard: the local store and
  its queue (\<^verbatim>\<open>services/offline.ts\<close>), sync-up, sync-down and the offline-fallback
  wrapper (\<^verbatim>\<open>services/sync.ts\<close>), and the handler that starts a visit
  (\<^verbatim>\<open>pages/VisitStart\<close>). Asynchronous functions are modelled as functions on an
  explicit world that return their result, or the value they throw, together with the new
  world; strings are compared in the lexicographic order of their characters.
\<close>

section \<open>Values, rows and errors\<close>

text \<open>
  Rows travel between the remote store, the local store and the mutation queue as plain
  JavaScript objects (\<^verbatim>\<open>payload: any\<close>, \<^verbatim>\<open>select('*')\<close> results cast with
  \<^verbatim>\<open>as Client[]\<close>). A row is therefore an association list from column names to values;
  reading a column that is absent yields \<^verbatim>\<open>undefined\<close>.
\<close>

datatype jsvalue = JUndefined | JNull | JStr string | JNum int

type_synonym row = "(string \<times> jsvalue) list"

definition column :: "row \<Rightarrow> string \<Rightarrow> jsvalue" where
  "column r c = (case map_of r c of None \<Rightarrow> JUndefined | Some v \<Rightarrow> v)"

text \<open>
  Two kinds of thrown values occur: \<^verbatim>\<open>new Error(msg)\<close> and the error objects the remote
  client returns, which carry a \<^verbatim>\<open>code\<close> besides the message.
\<close>

datatype error = Error string | PostgrestError string string

fun error_code :: "error \<Rightarrow> string option" where
  "error_code (Error msg) = None"
| "error_code (PostgrestError c msg) = Some c"

section \<open>The local persistent store (offline.ts)\<close>

text \<open>
  A queue item and the active-visit marker, as the interfaces \<^verbatim>\<open>MutationQueueItem\<close> and
  \<^verbatim>\<open>ActiveVisit\<close> declare them. The field \<^verbatim>\<open>id\<close> is written \<open>item_id\<close> and the field
  \<^verbatim>\<open>notes\<close> is written \<open>visit_notes\<close>; the four operation kinds carry the suffix
  \<open>_op\<close>. An optional field is an \<open>option\<close>. The client identifier of a marker is the
  value of the \<^verbatim>\<open>id\<close> column of a client row.
\<close>

datatype operation = insert_op | update_op | upsert_op | delete_op

record MutationQueueItem =
  item_id :: string
  table :: string
  operation :: operation
  payload :: row
  key :: "string option"
  timestamp :: string
  synced :: bool

record ActiveVisit =
  visit_id :: string
  client_id :: jsvalue
  start_time :: string
  visit_notes :: "string option"

text \<open>
  \<^verbatim>\<open>STORAGE_KEYS\<close>: the nine cached collections. The two remaining keys,
  \<^verbatim>\<open>active_visit\<close> and \<^verbatim>\<open>mutation_queue\<close>, hold values of other types and are
  fields of their own. A key that was never set reads as \<^verbatim>\<open>null\<close>, here \<open>None\<close>.
  Storage-layer failures (a rejected localforage promise) are not modelled.
\<close>

datatype storage_key =
  clients | products | visits | orders | order_items
  | client_products | rep_tasks | budgets | client_followups

record localforage_store =
  collections :: "storage_key \<Rightarrow> row list option"
  active_visit :: "ActiveVisit option"
  mutation_queue :: "MutationQueueItem list option"

section \<open>The remote store\<close>

text \<open>
  The remote store is an external service. Reads see named tables of rows and may fail per
  table; writes are answered by \<open>respond\<close>, which may depend on every write received so
  far, and each write request that reaches the service is recorded in \<open>received\<close>. The
  select requests sent to the service are recorded in the field \<open>selects\<close> of the world.
\<close>

datatype request =
  Insert string row
  | Update string row string
  | Upsert string row
  | Delete string string

datatype filter =
  Eq string jsvalue
  | In string "jsvalue list"
  | Gte string jsvalue
  | Lt string jsvalue

record remote =
  tables :: "string \<Rightarrow> row list"
  select_error :: "string \<Rightarrow> error option"
  respond :: "request list \<Rightarrow> request \<Rightarrow> error option"
  received :: "request list"

section \<open>The world a call runs in\<close>

text \<open>
  \<^verbatim>\<open>new Date()\<close> is observed through the year and month of local time (months count
  from 0) and through \<^verbatim>\<open>toISOString()\<close>; the day of the month is part of the value
  but no function below reads it. The \<open>n\<close>-th reading of the clock is \<open>clock w n\<close> and the
  \<open>n\<close>-th identifier produced by \<^verbatim>\<open>uuidv4()\<close> is \<open>uuidv4 w n\<close>; the counters say how
  many readings were taken.
\<close>

record Date =
  getFullYear :: nat
  getMonth :: nat
  getDate :: nat
  toISOString :: string

datatype console_line =
  StartingSyncDown
  | SyncDownCompleted
  | SyncDownFailed error
  | StartingSyncUp
  | FailedToSyncMutation string error
  | SyncUpCompleted nat
  | SyncUpFailed error
  | DuplicateKey string
  | OfflineOperationFailed error
  | SupabaseOperationFailed error
  | OfflineFallbackFailed error
  | FailedToStartVisit error

record world =
  isOnline :: bool
  localforage :: localforage_store
  supabase :: remote
  console :: "console_line list"
  uuidv4 :: "nat \<Rightarrow> string"
  uuid_calls :: nat
  clock :: "nat \<Rightarrow> Date"
  date_calls :: nat
  selects :: "(string \<times> filter list) list"

definition console_log :: "console_line \<Rightarrow> world \<Rightarrow> world" where
  "console_log l w = w\<lparr>console := console w @ [l]\<rparr>"

subsection \<open>Cached collections and the active-visit marker\<close>

definition setData :: "storage_key \<Rightarrow> row list \<Rightarrow> world \<Rightarrow> world" where
  "setData k d w =
     w\<lparr>localforage := (localforage w)\<lparr>collections := (collections (localforage w))(k \<mapsto> d)\<rparr>\<rparr>"

definition getData :: "storage_key \<Rightarrow> world \<Rightarrow> row list" where
  "getData k w = (case collections (localforage w) k of None \<Rightarrow> [] | Some d \<Rightarrow> d)"

definition storageSetActiveVisit :: "ActiveVisit option \<Rightarrow> world \<Rightarrow> world" where
  "storageSetActiveVisit visit w =
     (case visit of
        Some v \<Rightarrow> w\<lparr>localforage := (localforage w)\<lparr>active_visit := Some v\<rparr>\<rparr>
      | None \<Rightarrow> w\<lparr>localforage := (localforage w)\<lparr>active_visit := None\<rparr>\<rparr>)"

definition storageGetActiveVisit :: "world \<Rightarrow> ActiveVisit option" where
  "storageGetActiveVisit w = active_visit (localforage w)"

subsection \<open>The mutation queue\<close>

definition readQueue :: "world \<Rightarrow> MutationQueueItem list" where
  \<comment> \<open>\<^verbatim>\<open>await localforage.getItem(STORAGE_KEYS.mutation_queue) || []\<close>\<close>
  "readQueue w = (case mutation_queue (localforage w) of None \<Rightarrow> [] | Some q \<Rightarrow> q)"

definition writeQueue :: "MutationQueueItem list \<Rightarrow> world \<Rightarrow> world" where
  \<comment> \<open>\<^verbatim>\<open>await localforage.setItem(STORAGE_KEYS.mutation_queue, queue)\<close>\<close>
  "writeQueue q w = w\<lparr>localforage := (localforage w)\<lparr>mutation_queue := Some q\<rparr>\<rparr>"

definition new_uuid :: "world \<Rightarrow> string \<times> world" where
  \<comment> \<open>\<^verbatim>\<open>uuidv4()\<close>\<close>
  "new_uuid w = (uuidv4 w (uuid_calls w), w\<lparr>uuid_calls := uuid_calls w + 1\<rparr>)"

definition new_Date :: "world \<Rightarrow> Date \<times> world" where
  \<comment> \<open>\<^verbatim>\<open>new Date()\<close>\<close>
  "new_Date w = (clock w (date_calls w), w\<lparr>date_calls := date_calls w + 1\<rparr>)"

text \<open>
  The argument of \<^verbatim>\<open>enqueueMutation\<close> is an item without \<^verbatim>\<open>id\<close>, \<^verbatim>\<open>timestamp\<close>
  and \<^verbatim>\<open>synced\<close>: its four remaining fields are passed one by one.
\<close>

definition enqueueMutation ::
  "string \<Rightarrow> operation \<Rightarrow> row \<Rightarrow> string option \<Rightarrow> world \<Rightarrow> world" where
  "enqueueMutation tbl oper pl k w =
     (let queue = readQueue w;
          (new_id, w1) = new_uuid w;
          (now, w2) = new_Date w1;
          queueItem = \<lparr>item_id = new_id, table = tbl, operation = oper, payload = pl,
                       key = k, timestamp = toISOString now, synced = False\<rparr>
      in writeQueue (queue @ [queueItem]) w2)"

definition dequeueMutation :: "world \<Rightarrow> MutationQueueItem option \<times> world" where
  "dequeueMutation w =
     (case readQueue w of
        [] \<Rightarrow> (None, w)
      | item # queue \<Rightarrow> (Some item, writeQueue queue w))"

definition peekAllMutations :: "world \<Rightarrow> MutationQueueItem list" where
  "peekAllMutations w = readQueue w"

definition markMutationSynced :: "string \<Rightarrow> world \<Rightarrow> world" where
  "markMutationSynced mutationId w =
     writeQueue
       (map (\<lambda>item. if item_id item = mutationId then item\<lparr>synced := True\<rparr> else item)
          (readQueue w)) w"

definition removeSyncedMutations :: "world \<Rightarrow> world" where
  "removeSyncedMutations w = writeQueue (filter (\<lambda>item. \<not> synced item) (readQueue w)) w"

definition getPendingMutationsCount :: "world \<Rightarrow> nat" where
  "getPendingMutationsCount w = length (filter (\<lambda>item. \<not> synced item) (readQueue w))"

section \<open>Sync-up (sync.ts)\<close>

definition send :: "request \<Rightarrow> world \<Rightarrow> error option \<times> world" where
  "send rq w =
     (let r = supabase w
      in (respond r (received r) rq, w\<lparr>supabase := r\<lparr>received := received r @ [rq]\<rparr>\<rparr>))"

text \<open>
  \<^verbatim>\<open>!key\<close> holds for a missing key and for the empty string. The \<^verbatim>\<open>default\<close> branch
  of the switch is unreachable for the four operation kinds of the type.
\<close>

definition processMutation :: "MutationQueueItem \<Rightarrow> world \<Rightarrow> (error + unit) \<times> world" where
  "processMutation mutation w =
     (case operation mutation of
        insert_op \<Rightarrow>
          (case send (Insert (table mutation) (payload mutation)) w of
             (None, w1) \<Rightarrow> (Inr (), w1)
           | (Some insertError, w1) \<Rightarrow>
               if error_code insertError = Some ''23505''
               then (Inr (), console_log (DuplicateKey (table mutation)) w1)
               else (Inl insertError, w1))
      | update_op \<Rightarrow>
          (case key mutation of
             None \<Rightarrow> (Inl (Error ''Update operation requires a key''), w)
           | Some k \<Rightarrow>
               if k = [] then (Inl (Error ''Update operation requires a key''), w)
               else (case send (Update (table mutation) (payload mutation) k) w of
                       (None, w1) \<Rightarrow> (Inr (), w1)
                     | (Some updateError, w1) \<Rightarrow> (Inl updateError, w1)))
      | upsert_op \<Rightarrow>
          (case send (Upsert (table mutation) (payload mutation)) w of
             (None, w1) \<Rightarrow> (Inr (), w1)
           | (Some upsertError, w1) \<Rightarrow> (Inl upsertError, w1))
      | delete_op \<Rightarrow>
          (case key mutation of
             None \<Rightarrow> (Inl (Error ''Delete operation requires a key''), w)
           | Some k \<Rightarrow>
               if k = [] then (Inl (Error ''Delete operation requires a key''), w)
               else (case send (Delete (table mutation) k) w of
                       (None, w1) \<Rightarrow> (Inr (), w1)
                     | (Some deleteError, w1) \<Rightarrow> (Inl deleteError, w1))))"

lemma localforage_send: "localforage (snd (send rq w)) = localforage w"
  by (simp add: send_def Let_def)

lemma localforage_processMutation:
  "localforage (snd (processMutation m w)) = localforage w"
  by (cases "send (Insert (table m) (payload m)) w"; cases "send (Upsert (table m) (payload m)) w")
     (auto simp: processMutation_def console_log_def send_def Let_def
           split: operation.splits option.splits prod.splits)

lemma readQueue_processMutation:
  "processMutation m w = (res, w') \<Longrightarrow> readQueue w' = readQueue w"
  using localforage_processMutation [of m w] by (simp add: readQueue_def)

lemma readQueue_writeQueue: "readQueue (writeQueue q w) = q"
  by (simp add: readQueue_def writeQueue_def)

lemma dequeueMutation_Some:
  "dequeueMutation w = (Some m, w1) \<Longrightarrow> readQueue w = m # readQueue w1"
  by (auto simp: dequeueMutation_def readQueue_writeQueue split: list.splits)

lemma length_markMutationSynced:
  "length (readQueue (markMutationSynced i w)) = length (readQueue w)"
  by (simp add: markMutationSynced_def readQueue_writeQueue)

text \<open>
  The drain loop of \<^verbatim>\<open>syncUp\<close>: \<^verbatim>\<open>while ((mutation = await dequeueMutation()) !== null)\<close>
  with its inner \<^verbatim>\<open>try/catch\<close>. The result is the local \<^verbatim>\<open>processedCount\<close> when
  the loop ends, or the error rethrown by the inner handler.
\<close>

function syncUp_loop :: "nat \<Rightarrow> world \<Rightarrow> (error + nat) \<times> world" where
  "syncUp_loop processedCount w =
     (case dequeueMutation w of
        (None, w1) \<Rightarrow> (Inr processedCount, w1)
      | (Some mutation, w1) \<Rightarrow>
          (case processMutation mutation w1 of
             (Inr u, w2) \<Rightarrow>
               syncUp_loop (processedCount + 1) (markMutationSynced (item_id mutation) w2)
           | (Inl err, w2) \<Rightarrow>
               (Inl err,
                enqueueMutation (table mutation) (operation mutation) (payload mutation)
                  (key mutation)
                  (console_log (FailedToSyncMutation (item_id mutation) err) w2))))"
  by pat_completeness auto
termination
proof (relation "measure (\<lambda>(c, w). length (readQueue w))", goal_cases)
  case 1
  show ?case by simp
next
  case (2 processedCount w x y x2 xa ya b)
  then have d: "dequeueMutation w = (Some x2, y)"
    and p: "processMutation x2 y = (Inr b, ya)"
    by simp_all
  from dequeueMutation_Some [OF d] readQueue_processMutation [OF p]
  show ?case
    by (simp add: length_markMutationSynced)
qed

declare syncUp_loop.simps [simp del]

definition syncUp :: "world \<Rightarrow> (error + jsvalue) \<times> world" where
  "syncUp w =
     (if \<not> isOnline w then (Inl (Error ''Cannot sync while offline''), w)
      else
        (case syncUp_loop 0 (console_log StartingSyncUp w) of
           (Inr processedCount, w1) \<Rightarrow>
             (Inr JUndefined,
              console_log (SyncUpCompleted processedCount) (removeSyncedMutations w1))
         | (Inl err, w1) \<Rightarrow> (Inl err, console_log (SyncUpFailed err) w1)))"

text \<open>
  Vocabulary for statements about a drain. \<open>process_all ms w\<close> is the world reached by
  processing the mutations \<open>ms\<close> one after the other, in list order, when each of them
  succeeds, and \<open>None\<close> as soon as one fails. \<open>requests_of ms\<close> are the requests
  that processing \<open>ms\<close> sends to the remote store, in order. \<open>marked_by ids q\<close> is the
  queue \<open>q\<close> after \<^verbatim>\<open>markMutationSynced\<close> has run for each identifier in \<open>ids\<close>.
\<close>

fun process_all :: "MutationQueueItem list \<Rightarrow> world \<Rightarrow> world option" where
  "process_all [] w = Some w"
| "process_all (m # ms) w =
     (case processMutation m w of
        (Inr u, w') \<Rightarrow> process_all ms w'
      | (Inl err, w') \<Rightarrow> None)"

definition request_of :: "MutationQueueItem \<Rightarrow> request option" where
  \<comment> \<open>the request \<open>processMutation\<close> sends for an entry; none when a required key is missing\<close>
  "request_of m =
     (case operation m of
        insert_op \<Rightarrow> Some (Insert (table m) (payload m))
      | update_op \<Rightarrow>
          (case key m of
             None \<Rightarrow> None
           | Some k \<Rightarrow> if k = [] then None else Some (Update (table m) (payload m) k))
      | upsert_op \<Rightarrow> Some (Upsert (table m) (payload m))
      | delete_op \<Rightarrow>
          (case key m of
             None \<Rightarrow> None
           | Some k \<Rightarrow> if k = [] then None else Some (Delete (table m) k)))"

definition requests_of :: "MutationQueueItem list \<Rightarrow> request list" where
  "requests_of ms = List.map_filter request_of ms"

text \<open>
  The remote store's side of a drain. \<open>remote_answer r rq\<close> is what the store in state
  \<open>r\<close> answers to the request \<open>rq\<close>, and \<open>remote_after r rqs\<close> is the store once it has
  received the requests \<open>rqs\<close>. An answer is a duplicate-key conflict of an insert when
  the entry is an insert and the error code is \<^verbatim>\<open>23505\<close>. \<open>accepted_all r ms\<close> says that
  the store, starting in state \<open>r\<close>, answers the request of each entry of \<open>ms\<close> in turn
  with no error or with a duplicate-key conflict of an insert.
\<close>

definition remote_answer :: "remote \<Rightarrow> request \<Rightarrow> error option" where
  "remote_answer r rq = respond r (received r) rq"

definition remote_after :: "remote \<Rightarrow> request list \<Rightarrow> remote" where
  "remote_after r rqs = r\<lparr>received := received r @ rqs\<rparr>"

definition duplicate_key_conflict :: "MutationQueueItem \<Rightarrow> error \<Rightarrow> bool" where
  "duplicate_key_conflict m e = (operation m = insert_op \<and> error_code e = Some ''23505'')"

fun accepted_all :: "remote \<Rightarrow> MutationQueueItem list \<Rightarrow> bool" where
  "accepted_all r [] = True"
| "accepted_all r (m # ms) =
     (case request_of m of
        None \<Rightarrow> False
      | Some rq \<Rightarrow>
          (case remote_answer r rq of None \<Rightarrow> True | Some e \<Rightarrow> duplicate_key_conflict m e)
          \<and> accepted_all (remote_after r [rq]) ms)"

definition marked_by :: "string list \<Rightarrow> MutationQueueItem list \<Rightarrow> MutationQueueItem list" where
  "marked_by ids q =
     map (\<lambda>item. if item_id item \<in> set ids then item\<lparr>synced := True\<rparr> else item) q"

definition requeued :: "MutationQueueItem \<Rightarrow> world \<Rightarrow> MutationQueueItem" where
  \<comment> \<open>the copy of \<open>m\<close> that \<^verbatim>\<open>enqueueMutation\<close> builds in world \<open>w\<close>\<close>
  "requeued m w =
     \<lparr>item_id = uuidv4 w (uuid_calls w), table = table m, operation = operation m,
      payload = payload m, key = key m,
      timestamp = toISOString (clock w (date_calls w)), synced = False\<rparr>"

section \<open>Sync-down (sync.ts)\<close>

text \<open>
  A select with filters: the rows of the table that satisfy every filter, or the error of
  the request; either way the request has been sent, and is recorded. Filter literals are compared with the column value as the database would
  compare them: equality of values, and for \<^verbatim>\<open>gte\<close>/\<^verbatim>\<open>lt\<close> the order of numbers,
  or of ISO-formatted dates written as strings. A column that is null or missing passes no
  comparison.
\<close>

fun js_less :: "jsvalue \<Rightarrow> jsvalue \<Rightarrow> bool" where
  "js_less (JStr a) (JStr b) = (a < b)"
| "js_less (JNum a) (JNum b) = (a < b)"
| "js_less _ _ = False"

fun js_less_eq :: "jsvalue \<Rightarrow> jsvalue \<Rightarrow> bool" where
  "js_less_eq (JStr a) (JStr b) = (a \<le> b)"
| "js_less_eq (JNum a) (JNum b) = (a \<le> b)"
| "js_less_eq _ _ = False"

fun matches :: "row \<Rightarrow> filter \<Rightarrow> bool" where
  "matches r (Eq c v) = (column r c = v)"
| "matches r (In c vs) = (column r c \<in> set vs)"
| "matches r (Gte c v) = js_less_eq v (column r c)"
| "matches r (Lt c v) = js_less (column r c) v"

definition from_select ::
  "string \<Rightarrow> filter list \<Rightarrow> world \<Rightarrow> (error + row list) \<times> world" where
  "from_select tbl fs w =
     (let w1 = w\<lparr>selects := selects w @ [(tbl, fs)]\<rparr>
      in (case select_error (supabase w) tbl of
            Some e \<Rightarrow> (Inl e, w1)
          | None \<Rightarrow>
              (Inr (filter (\<lambda>r. list_all (matches r) fs) (tables (supabase w) tbl)), w1)))"

fun string_of_nat :: "nat \<Rightarrow> string" where
  "string_of_nat n =
     (if n < 10 then [char_of (48 + n)]
      else string_of_nat (n div 10) @ [char_of (48 + n mod 10)])"

declare string_of_nat.simps [simp del]

definition padStart :: "nat \<Rightarrow> char \<Rightarrow> string \<Rightarrow> string" where
  "padStart n c s = replicate (n - length s) c @ s"

definition is_digit :: "char \<Rightarrow> bool" where
  "is_digit c = (CHR ''0'' \<le> c \<and> c \<le> CHR ''9'')"

definition parseInt :: "string \<Rightarrow> int" where
  \<comment> \<open>the decimal prefix of the string; used on strings that begin with a digit only\<close>
  "parseInt s =
     int (foldl (\<lambda>a c. 10 * a + (of_char c - 48)) 0 (takeWhile is_digit s))"

definition getCurrentMonth :: "Date \<Rightarrow> string" where
  "getCurrentMonth now =
     string_of_nat (getFullYear now) @ padStart 2 CHR ''0'' (string_of_nat (getMonth now + 1))"

definition getDateRange :: "Date \<Rightarrow> string \<times> string" where
  "getDateRange now =
     (let currentMonth = getMonth now;
          currentYear = getFullYear now;
          prevMonth = (if currentMonth = 0 then 11 else currentMonth - 1);
          prevYear = (if currentMonth = 0 then currentYear - 1 else currentYear);
          nextMonth = (if currentMonth = 11 then 0 else currentMonth + 1);
          nextYear = (if currentMonth = 11 then currentYear + 1 else currentYear);
          startDate = string_of_nat prevYear @ ''-''
                        @ padStart 2 CHR ''0'' (string_of_nat (prevMonth + 1)) @ ''-01'';
          endDate = string_of_nat nextYear @ ''-''
                        @ padStart 2 CHR ''0'' (string_of_nat (nextMonth + 1)) @ ''-01''
      in (startDate, endDate))"

text \<open>The body of the \<^verbatim>\<open>try\<close> block of \<^verbatim>\<open>syncDown\<close>, after its first log line.\<close>

definition syncDown_try :: "string \<Rightarrow> world \<Rightarrow> (error + unit) \<times> world" where
  "syncDown_try repId w0 =
     (case from_select ''clients'' [In ''status'' [JStr ''active'', JStr ''inactive'']] w0 of
        (Inl clientsError, w0') \<Rightarrow> (Inl clientsError, w0')
      | (Inr clients_data, w0') \<Rightarrow>
     let w1 = setData clients clients_data w0' in
     (case from_select ''products'' [] w1 of
        (Inl productsError, w1') \<Rightarrow> (Inl productsError, w1')
      | (Inr products_data, w1') \<Rightarrow>
     let w2 = setData products products_data w1' in
     (case from_select ''client_products'' [] w2 of
        (Inl clientProductsError, w2') \<Rightarrow> (Inl clientProductsError, w2')
      | (Inr clientProducts, w2') \<Rightarrow>
     let w3 = setData client_products clientProducts w2';
         (now, w4) = new_Date w3;
         currentMonth = parseInt (getCurrentMonth now) in
     (case from_select ''budgets''
             [Eq ''rep_id'' (JStr repId), Eq ''month'' (JNum currentMonth)] w4 of
        (Inl budgetsError, w4') \<Rightarrow> (Inl budgetsError, w4')
      | (Inr budgets_data, w4') \<Rightarrow>
     let w5 = setData budgets budgets_data w4';
         (now', w6) = new_Date w5;
         (startDate, endDate) = getDateRange now' in
     (case from_select ''rep_tasks''
             [Eq ''rep_id'' (JStr repId), Gte ''end_date'' (JStr startDate),
              Lt ''end_date'' (JStr endDate)] w6 of
        (Inl repTasksError, w6') \<Rightarrow> (Inl repTasksError, w6')
      | (Inr repTasks, w6') \<Rightarrow>
     let w7 = setData rep_tasks repTasks w6' in
     (case from_select ''client_followups'' [] w7 of
        (Inl followupsError, w7') \<Rightarrow> (Inl followupsError, w7')
      | (Inr clientFollowups, w7') \<Rightarrow>
          (Inr (), console_log SyncDownCompleted
                     (setData client_followups clientFollowups w7'))))))))"

definition syncDown :: "string \<Rightarrow> world \<Rightarrow> (error + jsvalue) \<times> world" where
  "syncDown repId w =
     (if \<not> isOnline w then (Inl (Error ''Cannot sync while offline''), w)
      else
        (case syncDown_try repId (console_log StartingSyncDown w) of
           (Inr u, w1) \<Rightarrow> (Inr JUndefined, w1)
         | (Inl err, w1) \<Rightarrow> (Inl err, console_log (SyncDownFailed err) w1)))"

text \<open>
  Vocabulary for statements about a sync-down. \<open>syncDown_fetches\<close> lists the six
  fetches of \<open>syncDown_try\<close> in the order they are made: the collection written, the
  table read and the filters of the request. The budgets request is built from the first
  reading of the clock and the tasks request from the second. \<open>fetched_rows\<close> is what
  a fetch returns when it does not fail, \<open>fetches_before_failure\<close> are the leading
  fetches that do not fail, and \<open>first_failure\<close> is the error of the first fetch that
  fails, if any.
\<close>

definition clients_filters :: "filter list" where
  "clients_filters = [In ''status'' [JStr ''active'', JStr ''inactive'']]"

definition budgets_filters :: "string \<Rightarrow> world \<Rightarrow> filter list" where
  "budgets_filters repId w =
     [Eq ''rep_id'' (JStr repId),
      Eq ''month'' (JNum (parseInt (getCurrentMonth (clock w (date_calls w)))))]"

definition tasks_filters :: "string \<Rightarrow> world \<Rightarrow> filter list" where
  "tasks_filters repId w =
     [Eq ''rep_id'' (JStr repId),
      Gte ''end_date'' (JStr (fst (getDateRange (clock w (date_calls w + 1))))),
      Lt ''end_date'' (JStr (snd (getDateRange (clock w (date_calls w + 1)))))]"

definition syncDown_fetches ::
  "string \<Rightarrow> world \<Rightarrow> (storage_key \<times> string \<times> filter list) list" where
  "syncDown_fetches repId w =
     [(clients, ''clients'', clients_filters),
      (products, ''products'', []),
      (client_products, ''client_products'', []),
      (budgets, ''budgets'', budgets_filters repId w),
      (rep_tasks, ''rep_tasks'', tasks_filters repId w),
      (client_followups, ''client_followups'', [])]"

definition fetched_rows :: "remote \<Rightarrow> string \<Rightarrow> filter list \<Rightarrow> row list" where
  "fetched_rows r tbl fs = filter (\<lambda>row. list_all (matches row) fs) (tables r tbl)"

definition fetch_ok :: "world \<Rightarrow> storage_key \<times> string \<times> filter list \<Rightarrow> bool" where
  "fetch_ok w f = (select_error (supabase w) (fst (snd f)) = None)"

definition fetches_before_failure ::
  "string \<Rightarrow> world \<Rightarrow> (storage_key \<times> string \<times> filter list) list" where
  "fetches_before_failure repId w = takeWhile (fetch_ok w) (syncDown_fetches repId w)"

definition first_failure :: "string \<Rightarrow> world \<Rightarrow> error option" where
  "first_failure repId w =
     (case dropWhile (fetch_ok w) (syncDown_fetches repId w) of
        [] \<Rightarrow> None
      | f # fs \<Rightarrow> select_error (supabase w) (fst (snd f)))"



definition isNetworkOnline :: "world \<Rightarrow> bool" where
  "isNetworkOnline w = isOnline w"

section \<open>The offline-fallback read wrapper (sync.ts)\<close>

text \<open>
  The two operations are arbitrary asynchronous closures: each may change the world and
  either returns a value or throws.
\<close>

definition withOfflineFallback ::
  "(world \<Rightarrow> (error + 'a) \<times> world) \<Rightarrow> (world \<Rightarrow> (error + 'a) \<times> world) \<Rightarrow> 'a
     \<Rightarrow> world \<Rightarrow> (error + 'a) \<times> world" where
  "withOfflineFallback supabaseOperation offlineOperation fallbackValue w =
     (if \<not> isOnline w then
        (case offlineOperation w of
           (Inr v, w1) \<Rightarrow> (Inr v, w1)
         | (Inl err, w1) \<Rightarrow> (Inr fallbackValue, console_log (OfflineOperationFailed err) w1))
      else
        (case supabaseOperation w of
           (Inr v, w1) \<Rightarrow> (Inr v, w1)
         | (Inl err, w1) \<Rightarrow>
             (case offlineOperation (console_log (SupabaseOperationFailed err) w1) of
                (Inr v, w2) \<Rightarrow> (Inr v, w2)
              | (Inl offlineError, w2) \<Rightarrow>
                  (Inr fallbackValue, console_log (OfflineFallbackFailed offlineError) w2))))"

section \<open>Starting a visit (VisitStart page)\<close>

datatype toast = toast_error string | toast_success string

text \<open>
  The component state the handler reads and writes, the toasts it shows and the
  navigations it requests (the visit and client identifiers put into the URL
  \<^verbatim>\<open>/visit/client?visit_id=...&client_id=...\<close>). \<open>activeVisit\<close> is the page's own
  copy of the marker, loaded by the data-loading effect; the handler does not read the
  store. The selected client is a row, and \<^verbatim>\<open>selectedClient.id\<close> is its \<open>id\<close> column.
  \<^verbatim>\<open>REP_ID\<close> comes from the configuration module and is a parameter here.
\<close>

record VisitStart =
  selectedClient :: "row option"
  activeVisit :: "ActiveVisit option"
  isStartingVisit :: bool
  toasts :: "toast list"
  navigations :: "(string \<times> jsvalue) list"

definition show_toast :: "toast \<Rightarrow> VisitStart \<Rightarrow> VisitStart" where
  "show_toast t st = st\<lparr>toasts := toasts st @ [t]\<rparr>"

definition handleStartVisit :: "string \<Rightarrow> VisitStart \<Rightarrow> world \<Rightarrow> VisitStart \<times> world" where
  "handleStartVisit REP_ID st w =
     (case selectedClient st of
        None \<Rightarrow> (show_toast (toast_error ''Please select a client'') st, w)
      | Some client \<Rightarrow>
     (case activeVisit st of
        Some v \<Rightarrow>
          (show_toast
             (toast_error ''Please end your current visit before starting a new one'') st, w)
      | None \<Rightarrow>
     let st1 = st\<lparr>isStartingVisit := True\<rparr>;
         (visitId, w1) = new_uuid w;
         (d, w2) = new_Date w1;
         now = toISOString d;
         newVisit =
           [(''id'', JStr visitId),
            (''rep_id'', JStr REP_ID),
            (''client_id'', column client ''id''),
            (''visit_date'', JStr (takeWhile (\<lambda>c. c \<noteq> CHR ''T'') now)),
            (''check_in_time'', JStr now),
            (''notes'', JNull),
            (''created_at'', JStr now),
            (''updated_at'', JStr now)];
         newActiveVisit =
           \<lparr>visit_id = visitId, client_id = column client ''id'', start_time = now,
            visit_notes = None\<rparr>;
         written =
           (if isNetworkOnline w2 then
              (case send (Insert ''visits'' newVisit) w2 of
                 (Some err, w3) \<Rightarrow> (Inl err, st1, w3)
               | (None, w3) \<Rightarrow>
                   (Inr (), show_toast (toast_success ''Visit started successfully'') st1, w3))
            else
              (Inr (),
               show_toast (toast_success ''Visit started (will sync when online)'') st1,
               enqueueMutation ''visits'' insert_op newVisit None w2))
     in (case written of
           (Inr u, st2, w3) \<Rightarrow>
             (st2\<lparr>activeVisit := Some newActiveVisit,
                  navigations := navigations st2 @ [(visitId, column client ''id'')],
                  isStartingVisit := False\<rparr>,
              storageSetActiveVisit (Some newActiveVisit) w3)
         | (Inl err, st2, w3) \<Rightarrow>
             ((show_toast (toast_error ''Failed to start visit'') st2)
                \<lparr>isStartingVisit := False\<rparr>,
              console_log (FailedToStartVisit err) w3))))"

section \<open>Example worlds\<close>

definition mutA :: MutationQueueItem where
  "mutA = \<lparr>item_id = ''a'', table = ''clients'', operation = insert_op,
            payload = [(''id'', JStr ''c1''), (''name'', JStr ''Acme'')], key = None,
            timestamp = ''2024-11-14T08:00:00.000Z'', synced = False\<rparr>"

definition mutB :: MutationQueueItem where
  "mutB = \<lparr>item_id = ''b'', table = ''visits'', operation = update_op,
            payload = [(''notes'', JStr ''done'')], key = Some ''v1'',
            timestamp = ''2024-11-14T09:00:00.000Z'', synced = False\<rparr>"

definition nov15 :: Date where
  "nov15 = \<lparr>getFullYear = 2024, getMonth = 10, getDate = 15,
             toISOString = ''2024-11-15T10:00:00.000Z''\<rparr>"

definition client_row :: "string \<Rightarrow> string \<Rightarrow> row" where
  "client_row i st = [(''id'', JStr i), (''status'', JStr st)]"


definition old_cache :: "storage_key \<Rightarrow> row list option" where
  "old_cache = (\<lambda>k. Some [client_row ''old'' ''active''])"

definition remote_of ::
  "(string \<Rightarrow> row list) \<Rightarrow> (string \<Rightarrow> error option) \<Rightarrow> (request list \<Rightarrow> request \<Rightarrow> error option)
     \<Rightarrow> remote" where
  "remote_of tbls errs rsp =
     \<lparr>tables = tbls, select_error = errs, respond = rsp, received = []\<rparr>"

definition world_of :: "bool \<Rightarrow> MutationQueueItem list \<Rightarrow> remote \<Rightarrow> world" where
  "world_of online q r =
     \<lparr>isOnline = online,
      localforage = \<lparr>collections = old_cache, active_visit = None, mutation_queue = Some q\<rparr>,
      supabase = r, console = [],
      uuidv4 = (\<lambda>n. ''uuid-'' @ string_of_nat n), uuid_calls = 0,
      clock = (\<lambda>n. nov15), date_calls = 0, selects = []\<rparr>"

definition no_rows :: "string \<Rightarrow> row list" where
  "no_rows = (\<lambda>t. [])"

definition no_error :: "string \<Rightarrow> error option" where
  "no_error = (\<lambda>t. None)"

definition accept_all :: "request list \<Rightarrow> request \<Rightarrow> error option" where
  "accept_all = (\<lambda>h rq. None)"

definition offline_world :: world where
  "offline_world = world_of False [mutA, mutB] (remote_of no_rows no_error accept_all)"

definition mutC :: MutationQueueItem where
  "mutC = \<lparr>item_id = ''c'', table = ''orders'', operation = delete_op,
            payload = [], key = Some ''o7'',
            timestamp = ''2024-11-14T09:30:00.000Z'', synced = False\<rparr>"

fun duplicate_inserts :: "request list \<Rightarrow> request \<Rightarrow> error option" where
  "duplicate_inserts h (Insert t r) =
     Some (PostgrestError ''23505'' ''duplicate key value violates unique constraint'')"
| "duplicate_inserts h rq = None"

definition mutD :: MutationQueueItem where
  "mutD = \<lparr>item_id = ''d'', table = ''budgets'', operation = upsert_op,
            payload = [(''id'', JStr ''b1''), (''month'', JNum 202411)], key = None,
            timestamp = ''2024-11-14T09:45:00.000Z'', synced = False\<rparr>"

fun request_table :: "request \<Rightarrow> string" where
  "request_table (Insert t r) = t"
| "request_table (Update t r k) = t"
| "request_table (Upsert t r) = t"
| "request_table (Delete t k) = t"

definition deny_table :: "string \<Rightarrow> request list \<Rightarrow> request \<Rightarrow> error option" where
  "deny_table t h rq =
     (if request_table rq = t then Some (PostgrestError ''42501'' ''permission denied'')
      else None)"

definition refused_insert_world :: world where
  "refused_insert_world =
     world_of True [mutA, mutB] (remote_of no_rows no_error (deny_table ''clients''))"

definition refused_update_world :: world where
  "refused_update_world =
     world_of True [mutA, mutB, mutC] (remote_of no_rows no_error (deny_table ''visits''))"

definition refused_delete_world :: world where
  "refused_delete_world =
     world_of True [mutB, mutC, mutD] (remote_of no_rows no_error (deny_table ''orders''))"

definition refused_upsert_world :: world where
  "refused_upsert_world =
     world_of True [mutD, mutA] (remote_of no_rows no_error (deny_table ''budgets''))"

definition duplicate_mid_world :: world where
  "duplicate_mid_world =
     world_of True [mutB, mutA, mutC] (remote_of no_rows no_error duplicate_inserts)"

definition duplicate_world :: world where
  "duplicate_world = world_of True [mutA] (remote_of no_rows no_error duplicate_inserts)"

definition one_insert_world :: world where
  "one_insert_world = world_of True [mutA] (remote_of no_rows no_error accept_all)"

definition three_clients :: "row list" where
  "three_clients =
     [client_row ''c1'' ''active'', client_row ''c2'' ''inactive'', client_row ''c3'' ''active'']"

definition clients_only :: "string \<Rightarrow> row list" where
  "clients_only = (\<lambda>t. if t = ''clients'' then three_clients else [])"

definition sync_world :: world where
  "sync_world = world_of True [mutA] (remote_of clients_only no_error accept_all)"

definition products_fail :: "string \<Rightarrow> error option" where
  "products_fail =
     (\<lambda>t. if t = ''products'' then Some (PostgrestError ''57014'' ''timeout'') else None)"

definition broken_world :: world where
  "broken_world = world_of True [mutA] (remote_of clients_only products_fail accept_all)"

definition archived_clients :: "string \<Rightarrow> row list" where
  "archived_clients =
     (\<lambda>t. if t = ''clients''
          then [client_row ''c1'' ''active'', client_row ''c9'' ''archived''] else [])"

definition archived_world :: world where
  "archived_world = world_of True [] (remote_of archived_clients no_error accept_all)"



definition remote_fails :: "world \<Rightarrow> (error + row list) \<times> world" where
  "remote_fails w = (Inl (Error ''Failed to fetch''), w)"

definition local_clients :: "world \<Rightarrow> (error + row list) \<times> world" where
  "local_clients w = (Inr (getData clients w), w)"

definition local_fails :: "world \<Rightarrow> (error + row list) \<times> world" where
  "local_fails w = (Inl (Error ''storage unavailable''), w)"

definition accepting_world_AB :: world where
  "accepting_world_AB = world_of True [mutA, mutB] (remote_of no_rows no_error accept_all)"

definition running_visit :: ActiveVisit where
  "running_visit =
     \<lparr>visit_id = ''v1'', client_id = JStr ''c2'',
      start_time = ''2024-11-15T08:00:00.000Z'', visit_notes = None\<rparr>"

definition visiting_world :: world where
  "visiting_world =
     \<lparr>isOnline = True,
      localforage =
        \<lparr>collections = old_cache, active_visit = Some running_visit,
         mutation_queue = Some []\<rparr>,
      supabase = remote_of no_rows no_error accept_all, console = [],
      uuidv4 = (\<lambda>n. ''uuid-'' @ string_of_nat n), uuid_calls = 0,
      clock = (\<lambda>n. nov15), date_calls = 0, selects = []\<rparr>"

definition stale_page :: VisitStart where
  "stale_page =
     \<lparr>selectedClient = Some (client_row ''c1'' ''active''), activeVisit = None,
      isStartingVisit = False, toasts = [], navigations = []\<rparr>"

section \<open>Facts about the drain loop\<close>

lemma writeQueue_writeQueue: "writeQueue q (writeQueue q' w) = writeQueue q w"
  by (simp add: writeQueue_def)

lemma send_writeQueue:
  "send rq (writeQueue q w) = (fst (send rq w), writeQueue q (snd (send rq w)))"
  by (simp add: send_def writeQueue_def Let_def)

lemma console_log_writeQueue:
  "console_log l (writeQueue q w) = writeQueue q (console_log l w)"
  by (simp add: console_log_def writeQueue_def)

lemma processMutation_writeQueue:
  "processMutation m (writeQueue q w)
     = (fst (processMutation m w), writeQueue q (snd (processMutation m w)))"
  by (simp add: processMutation_def send_writeQueue console_log_writeQueue
           split: operation.splits option.splits prod.splits)

lemma processMutation_synced:
  "processMutation (m\<lparr>synced := b\<rparr>) w = processMutation m w"
  by (auto simp: processMutation_def split: operation.splits option.splits prod.splits)

lemma process_all_writeQueue:
  "process_all ms (writeQueue q w) = map_option (writeQueue q) (process_all ms w)"
proof (induction ms arbitrary: w)
  case Nil
  show ?case by simp
next
  case (Cons m ms)
  show ?case
    by (cases "processMutation m w") (simp add: processMutation_writeQueue Cons.IH split: sum.splits)
qed

lemma process_all_marked:
  "process_all (map (\<lambda>item. if P item then item\<lparr>synced := True\<rparr> else item) ms) w
     = process_all ms w"
  by (induction ms arbitrary: w) (simp_all add: processMutation_synced split: prod.splits sum.splits)


lemma marked_by_Nil: "marked_by [] q = q"
  by (simp add: marked_by_def)

lemma marked_by_mark:
  "marked_by ids (map (\<lambda>item. if item_id item = i then item\<lparr>synced := True\<rparr> else item) q)
     = marked_by (i # ids) q"
  by (induction q) (simp_all add: marked_by_def)

lemma marked_by_single:
  "map (\<lambda>item. if item_id item = i then item\<lparr>synced := True\<rparr> else item) q = marked_by [i] q"
  by (simp add: marked_by_def)

lemma item_id_mark:
  "map item_id (map (\<lambda>item. if P item then item\<lparr>synced := True\<rparr> else item) q)
     = map item_id q"
  by (induction q) simp_all

lemma marked_by_disjoint:
  "set ids \<inter> set (map item_id q) = {} \<Longrightarrow> marked_by ids q = q"
  by (induction q) (auto simp: marked_by_def)

lemma syncUp_loop_empty: "readQueue w = [] \<Longrightarrow> syncUp_loop n w = (Inr n, w)"
  by (simp add: syncUp_loop.simps [of n w] dequeueMutation_def)

lemma syncUp_loop_step_ok:
  assumes "readQueue w = m # q" and "processMutation m w = (Inr u, w1)"
  shows "syncUp_loop n w
           = syncUp_loop (n + 1) (writeQueue (marked_by [item_id m] q) w1)"
proof -
  have d: "dequeueMutation w = (Some m, writeQueue q w)"
    using assms(1) by (simp add: dequeueMutation_def)
  have p: "processMutation m (writeQueue q w) = (Inr u, writeQueue q w1)"
    using assms(2) by (simp add: processMutation_writeQueue)
  have k: "markMutationSynced (item_id m) (writeQueue q w1)
             = writeQueue (marked_by [item_id m] q) w1"
    by (simp add: markMutationSynced_def readQueue_writeQueue writeQueue_writeQueue
          marked_by_single)
  show ?thesis
    by (simp add: syncUp_loop.simps [of n w] d p k)
qed

lemma syncUp_loop_step_fail:
  assumes "readQueue w = m # q" and "processMutation m w = (Inl err, w1)"
  shows "syncUp_loop n w
           = (Inl err,
              enqueueMutation (table m) (operation m) (payload m) (key m)
                (console_log (FailedToSyncMutation (item_id m) err) (writeQueue q w1)))"
proof -
  have d: "dequeueMutation w = (Some m, writeQueue q w)"
    using assms(1) by (simp add: dequeueMutation_def)
  have p: "processMutation m (writeQueue q w) = (Inl err, writeQueue q w1)"
    using assms(2) by (simp add: processMutation_writeQueue)
  show ?thesis
    by (simp add: syncUp_loop.simps [of n w] d p)
qed

lemma marked_by_marked_by:
  "marked_by [i] (marked_by ids q) = marked_by (i # ids) q"
  by (induction q) (simp_all add: marked_by_def)

lemma item_id_marked_by: "map item_id (marked_by ids q) = map item_id q"
  by (simp add: marked_by_def item_id_mark)

lemma marked_by_append: "marked_by ids (p @ q) = marked_by ids p @ marked_by ids q"
  by (simp add: marked_by_def)

lemma process_all_marked_by: "process_all (marked_by ids ms) w = process_all ms w"
  by (simp add: marked_by_def process_all_marked)

lemma syncUp_loop_prefix_marked:
  assumes "readQueue w = marked_by ids pre @ rest" and "process_all pre w = Some w'"
    and "pre \<noteq> []"
  shows "syncUp_loop n w
           = syncUp_loop (n + length pre) (writeQueue (marked_by (map item_id pre) rest) w')"
  using assms
proof (induction pre arbitrary: w n rest ids w')
  case Nil
  then show ?case by simp
next
  case (Cons m ms)
  from Cons.prems(2) obtain u w1 where
    p: "processMutation m w = (Inr u, w1)" and rest_ok: "process_all ms w1 = Some w'"
    by (auto split: prod.splits sum.splits)
  define m' where "m' = (if item_id m \<in> set ids then m\<lparr>synced := True\<rparr> else m)"
  have m'_id: "item_id m' = item_id m"
    by (simp add: m'_def)
  have p': "processMutation m' w = (Inr u, w1)"
    using p by (simp add: m'_def processMutation_synced)
  have q: "readQueue w = m' # (marked_by ids ms @ rest)"
    using Cons.prems(1) by (simp add: marked_by_def m'_def)
  let ?q2 = "marked_by (item_id m # ids) ms @ marked_by [item_id m] rest"
  have step: "syncUp_loop n w = syncUp_loop (n + 1) (writeQueue ?q2 w1)"
    using syncUp_loop_step_ok [OF q p', of n]
    by (simp add: m'_id marked_by_append marked_by_marked_by)
  show ?case
  proof (cases "ms = []")
    case True
    with rest_ok step show ?thesis by (simp add: marked_by_def)
  next
    case False
    have q2: "readQueue (writeQueue ?q2 w1)
                = marked_by (item_id m # ids) ms @ marked_by [item_id m] rest"
      by (simp add: readQueue_writeQueue)
    have pa: "process_all ms (writeQueue ?q2 w1) = Some (writeQueue ?q2 w')"
      using rest_ok by (simp add: process_all_writeQueue)
    have "syncUp_loop (n + 1) (writeQueue ?q2 w1)
            = syncUp_loop (n + 1 + length ms)
                (writeQueue (marked_by (map item_id ms) (marked_by [item_id m] rest))
                   (writeQueue ?q2 w'))"
      by (rule Cons.IH [OF q2 pa False])
    also have "marked_by (map item_id ms) (marked_by [item_id m] rest)
                 = marked_by (map item_id (m # ms)) rest"
      by (simp add: marked_by_def)
    finally show ?thesis
      using step by (simp add: writeQueue_writeQueue)
  qed
qed

lemma syncUp_loop_prefix:
  assumes "readQueue w = pre @ rest" and "process_all pre w = Some w'" and "pre \<noteq> []"
  shows "syncUp_loop n w
           = syncUp_loop (n + length pre) (writeQueue (marked_by (map item_id pre) rest) w')"
  using syncUp_loop_prefix_marked [of w "[]" pre rest w' n] assms
  by (simp add: marked_by_Nil)


lemma send_frame:
  "send rq w = (r, w') \<Longrightarrow> w' = w\<lparr>supabase := supabase w'\<rparr>"
  by (auto simp: send_def Let_def)

lemma processMutation_frame_snd:
  "snd (processMutation m w)
     = w\<lparr>supabase := supabase (snd (processMutation m w)),
          console := console (snd (processMutation m w))\<rparr>"
  by (simp add: processMutation_def send_def Let_def console_log_def
        split: operation.splits option.splits)

lemma processMutation_frame:
  assumes "processMutation m w = (r, w')"
  shows "w' = w\<lparr>supabase := supabase w', console := console w'\<rparr>"
  using processMutation_frame_snd [of m w] assms by simp

lemma process_all_frame:
  "process_all ms w = Some w' \<Longrightarrow> w' = w\<lparr>supabase := supabase w', console := console w'\<rparr>"
proof (induction ms arbitrary: w)
  case Nil
  then show ?case by simp
next
  case (Cons m ms)
  from Cons.prems obtain u w1 where
    p: "processMutation m w = (Inr u, w1)" and r: "process_all ms w1 = Some w'"
    by (auto split: prod.splits sum.splits)
  have a: "w1 = w\<lparr>supabase := supabase w1, console := console w1\<rparr>"
    by (rule processMutation_frame [OF p])
  have b: "w' = w1\<lparr>supabase := supabase w', console := console w'\<rparr>"
    by (rule Cons.IH [OF r])
  show ?case
    by (subst b, subst a) simp
qed

lemma received_processMutation:
  "received (supabase (snd (processMutation m w)))
     = received (supabase w) @ requests_of [m]"
  by (simp add: processMutation_def send_def console_log_def Let_def requests_of_def
        request_of_def List.map_filter_simps split: operation.splits option.splits)

lemma requests_of_Cons: "requests_of (m # ms) = requests_of [m] @ requests_of ms"
  by (simp add: requests_of_def List.map_filter_simps split: option.splits)

lemma requests_of_append: "requests_of (ms @ ms') = requests_of ms @ requests_of ms'"
  by (simp add: requests_of_def List.map_filter_def)

lemma received_process_all:
  "process_all ms w = Some w'
     \<Longrightarrow> received (supabase w') = received (supabase w) @ requests_of ms"
proof (induction ms arbitrary: w)
  case Nil
  then show ?case by (simp add: requests_of_def List.map_filter_simps)
next
  case (Cons m ms)
  from Cons.prems obtain u w1 where
    p: "processMutation m w = (Inr u, w1)" and r: "process_all ms w1 = Some w'"
    by (auto split: prod.splits sum.splits)
  from received_processMutation [of m w] p
  have "received (supabase w1) = received (supabase w) @ requests_of [m]"
    by simp
  with Cons.IH [OF r] show ?case
    by (simp add: requests_of_Cons [of m ms])
qed

lemma syncUp_loop_failure:
  assumes q: "readQueue w = pre @ m # post"
    and pre: "process_all pre w = Some w1"
    and m: "processMutation m w1 = (Inl err, w2)"
  shows "syncUp_loop n w
           = (Inl err,
              enqueueMutation (table m) (operation m) (payload m) (key m)
                (console_log (FailedToSyncMutation (item_id m) err)
                   (writeQueue (marked_by (map item_id pre) post) w2)))"
proof (cases "pre = []")
  case True
  with pre have "w1 = w" by simp
  with True q m syncUp_loop_step_fail [of w m post err w2 n] show ?thesis
    by (simp add: marked_by_Nil)
next
  case False
  let ?ids = "map item_id pre"
  define m' where "m' = (if item_id m \<in> set ?ids then m\<lparr>synced := True\<rparr> else m)"
  let ?w = "writeQueue (marked_by ?ids (m # post)) w1"
  have run: "syncUp_loop n w = syncUp_loop (n + length pre) ?w"
    by (rule syncUp_loop_prefix [OF q pre False])
  have q': "readQueue ?w = m' # marked_by ?ids post"
    by (simp add: readQueue_writeQueue marked_by_def m'_def)
  have p': "processMutation m' ?w = (Inl err, writeQueue (marked_by ?ids (m # post)) w2)"
    using m by (simp add: m'_def processMutation_synced processMutation_writeQueue)
  have same: "table m' = table m" "operation m' = operation m" "payload m' = payload m"
    "key m' = key m" "item_id m' = item_id m"
    by (simp_all add: m'_def)
  from syncUp_loop_step_fail [OF q' p', of "n + length pre"] run show ?thesis
    by (simp add: same writeQueue_writeQueue)
qed

lemma syncUp_failure:
  assumes on: "isOnline w"
    and q: "readQueue w = pre @ m # post"
    and pre: "process_all pre (console_log StartingSyncUp w) = Some w1"
    and m: "processMutation m w1 = (Inl err, w2)"
  shows "syncUp w
           = (Inl err,
              w2\<lparr>localforage :=
                    (localforage w)\<lparr>mutation_queue :=
                       Some (marked_by (map item_id pre) post @ [requeued m w])\<rparr>,
                  console := console w2 @ [FailedToSyncMutation (item_id m) err, SyncUpFailed err],
                  uuid_calls := uuid_calls w + 1,
                  date_calls := date_calls w + 1\<rparr>)"
proof -
  let ?w0 = "console_log StartingSyncUp w"
  have q0: "readQueue ?w0 = pre @ m # post"
    using q by (simp add: readQueue_def console_log_def)
  have f1: "w1 = ?w0\<lparr>supabase := supabase w1, console := console w1\<rparr>"
    by (rule process_all_frame [OF pre])
  have f2: "w2 = w1\<lparr>supabase := supabase w2, console := console w2\<rparr>"
    by (rule processMutation_frame [OF m])
  have w2: "w2 = w\<lparr>supabase := supabase w2, console := console w2\<rparr>"
    by (subst f2, subst f1) (simp add: console_log_def)
  have loop: "syncUp_loop 0 ?w0
           = (Inl err,
              enqueueMutation (table m) (operation m) (payload m) (key m)
                (console_log (FailedToSyncMutation (item_id m) err)
                   (writeQueue (marked_by (map item_id pre) post) w2)))"
    by (rule syncUp_loop_failure [OF q0 pre m])
  have "syncUp w = (Inl err, console_log (SyncUpFailed err)
          (enqueueMutation (table m) (operation m) (payload m) (key m)
                (console_log (FailedToSyncMutation (item_id m) err)
                   (writeQueue (marked_by (map item_id pre) post) w2))))"
    using on by (simp add: syncUp_def loop)
  also have "console_log (SyncUpFailed err)
          (enqueueMutation (table m) (operation m) (payload m) (key m)
                (console_log (FailedToSyncMutation (item_id m) err)
                   (writeQueue (marked_by (map item_id pre) post) w2)))
     = w2\<lparr>localforage :=
                    (localforage w)\<lparr>mutation_queue :=
                       Some (marked_by (map item_id pre) post @ [requeued m w])\<rparr>,
                  console := console w2 @ [FailedToSyncMutation (item_id m) err, SyncUpFailed err],
                  uuid_calls := uuid_calls w + 1,
                  date_calls := date_calls w + 1\<rparr>"
    by (subst (1 2) w2)
       (simp add: enqueueMutation_def new_uuid_def new_Date_def console_log_def
          writeQueue_def readQueue_def requeued_def)
  finally show ?thesis .
qed

lemma syncUp_success:
  assumes on: "isOnline w"
    and all: "process_all (readQueue w) (console_log StartingSyncUp w) = Some w1"
  shows "syncUp w
           = (Inr JUndefined,
              w1\<lparr>localforage := (localforage w)\<lparr>mutation_queue := Some []\<rparr>,
                  console := console w1 @ [SyncUpCompleted (length (readQueue w))]\<rparr>)"
proof -
  let ?w0 = "console_log StartingSyncUp w"
  let ?n = "length (readQueue w)"
  have q0: "readQueue ?w0 = readQueue w"
    by (simp add: readQueue_def console_log_def)
  have f1: "w1 = ?w0\<lparr>supabase := supabase w1, console := console w1\<rparr>"
    by (rule process_all_frame [OF all])
  have lf: "localforage w1 = localforage w"
    by (subst f1) (simp add: console_log_def)
  have loop: "syncUp_loop 0 ?w0
                = (Inr ?n, if readQueue w = [] then w1 else writeQueue [] w1)"
  proof (cases "readQueue w = []")
    case True
    with all have "w1 = ?w0" by simp
    with True q0 syncUp_loop_empty [of ?w0 0] show ?thesis by simp
  next
    case False
    have "syncUp_loop 0 ?w0
            = syncUp_loop (0 + ?n) (writeQueue (marked_by (map item_id (readQueue w)) []) w1)"
      using syncUp_loop_prefix [of ?w0 "readQueue w" "[]" w1 0] q0 all False by simp
    with False show ?thesis
      by (simp add: marked_by_def syncUp_loop_empty readQueue_writeQueue)
  qed
  have purge: "removeSyncedMutations (if readQueue w = [] then w1 else writeQueue [] w1)
          = writeQueue [] w1"
    using lf by (simp add: removeSyncedMutations_def readQueue_def writeQueue_def)
  have "syncUp w = (Inr JUndefined, console_log (SyncUpCompleted ?n) (writeQueue [] w1))"
    using on by (simp add: syncUp_def loop purge)
  then show ?thesis
    using lf by (simp add: console_log_def writeQueue_def)
qed

section \<open>Facts about the examples\<close>

lemma process_all_Cons_ok:
  "fst (processMutation m w) = Inr u
     \<Longrightarrow> process_all (m # ms) w = process_all ms (snd (processMutation m w))"
  by (cases "processMutation m w") simp

lemma digit_chars:
  "char_of (48::nat) = CHR ''0''" "char_of (49::nat) = CHR ''1''" "char_of (50::nat) = CHR ''2''"
  "char_of (51::nat) = CHR ''3''" "char_of (52::nat) = CHR ''4''" "char_of (53::nat) = CHR ''5''"
  "char_of (54::nat) = CHR ''6''" "char_of (55::nat) = CHR ''7''" "char_of (56::nat) = CHR ''8''"
  "char_of (57::nat) = CHR ''9''"
  by code_simp+

lemmas example_defs =
  world_of_def remote_of_def no_rows_def no_error_def accept_all_def old_cache_def
  mutA_def mutB_def mutC_def nov15_def

lemma syncUp_empty_queue:
  assumes "isOnline w" and "readQueue w = []"
  shows "syncUp w
           = (Inr JUndefined,
              w\<lparr>localforage := (localforage w)\<lparr>mutation_queue := Some []\<rparr>,
                 console := console w @ [StartingSyncUp, SyncUpCompleted 0]\<rparr>)"
  using syncUp_success [of w "console_log StartingSyncUp w"] assms
  by (simp add: console_log_def)

lemma send_eq:
  "send rq w = (remote_answer (supabase w) rq, w\<lparr>supabase := remote_after (supabase w) [rq]\<rparr>)"
  by (simp add: send_def remote_answer_def remote_after_def Let_def)

lemma remote_after_Nil: "remote_after r [] = r"
  by (simp add: remote_after_def)

lemma remote_after_remote_after:
  "remote_after (remote_after r a) b = remote_after r (a @ b)"
  by (simp add: remote_after_def)

lemma received_remote_after: "received (remote_after r rqs) = received r @ rqs"
  by (simp add: remote_after_def)

lemma requests_of_single: "request_of m = Some rq \<Longrightarrow> requests_of [m] = [rq]"
  by (simp add: requests_of_def List.map_filter_simps)

lemma processMutation_refused:
  assumes "request_of m = Some rq"
    and "remote_answer (supabase w) rq = Some e"
    and "\<not> duplicate_key_conflict m e"
  shows "processMutation m w = (Inl e, w\<lparr>supabase := remote_after (supabase w) [rq]\<rparr>)"
  using assms
  by (cases "operation m")
     (auto simp: processMutation_def send_eq request_of_def duplicate_key_conflict_def
           split: option.splits if_splits)

lemma processMutation_accepted:
  assumes "request_of m = Some rq"
    and "case remote_answer (supabase w) rq of None \<Rightarrow> True
         | Some e \<Rightarrow> duplicate_key_conflict m e"
  shows "fst (processMutation m w) = Inr ()"
    and "supabase (snd (processMutation m w)) = remote_after (supabase w) [rq]"
  using assms
  by (cases "operation m";
      auto simp: processMutation_def send_eq request_of_def duplicate_key_conflict_def
           console_log_def
           split: option.splits if_splits)+

lemma process_all_accepted:
  assumes "accepted_all (supabase w) ms"
  shows "\<exists>w'. process_all ms w = Some w'
              \<and> supabase w' = remote_after (supabase w) (requests_of ms)"
  using assms
proof (induction ms arbitrary: w)
  case Nil
  then show ?case
    by (simp add: requests_of_def List.map_filter_simps remote_after_Nil)
next
  case (Cons m ms)
  from Cons.prems obtain rq where
    rq: "request_of m = Some rq"
    and ans: "case remote_answer (supabase w) rq of None \<Rightarrow> True
              | Some e \<Rightarrow> duplicate_key_conflict m e"
    and rest: "accepted_all (remote_after (supabase w) [rq]) ms"
    by (auto split: option.splits)
  let ?w1 = "snd (processMutation m w)"
  have ok: "fst (processMutation m w) = Inr ()"
    and s1: "supabase ?w1 = remote_after (supabase w) [rq]"
    by (rule processMutation_accepted [OF rq ans])+
  from rest s1 have "accepted_all (supabase ?w1) ms" by simp
  from Cons.IH [OF this] obtain w' where
    w': "process_all ms ?w1 = Some w'"
    and s': "supabase w' = remote_after (supabase ?w1) (requests_of ms)"
    by blast
  have "process_all (m # ms) w = Some w'"
    using process_all_Cons_ok [OF ok, of ms] w' by simp
  moreover have "supabase w' = remote_after (supabase w) (requests_of (m # ms))"
    using s' s1 requests_of_Cons [of m ms] requests_of_single [OF rq]
    by (simp add: remote_after_remote_after)
  ultimately show ?case by blast
qed

lemma accepted_all_append:
  "accepted_all r (xs @ ys)
     = (accepted_all r xs \<and> accepted_all (remote_after r (requests_of xs)) ys)"
proof (induction xs arbitrary: r)
  case Nil
  show ?case by (simp add: requests_of_def List.map_filter_simps remote_after_Nil)
next
  case (Cons m xs)
  show ?case
  proof (cases "request_of m")
    case None
    then show ?thesis by simp
  next
    case (Some rq)
    then show ?thesis
      using requests_of_Cons [of m xs] requests_of_single [OF Some]
      by (simp add: Cons.IH remote_after_remote_after)
  qed
qed

lemmas drain_example_defs =
  world_of_def remote_of_def deny_table_def request_of_def requests_of_def
  List.map_filter_simps remote_answer_def remote_after_def duplicate_key_conflict_def
  mutA_def mutB_def mutC_def mutD_def marked_by_def readQueue_def

section \<open>Sync-up: failure and re-queue\<close>

text \<open>
  C1. Let the queue be \<open>pre @ m # post\<close>. Let the remote store answer the request of
  each entry of \<open>pre\<close>, in queue order, with no error or with a duplicate-key conflict
  of an insert, and let it answer the request of \<open>m\<close> (an insert, update, upsert or
  delete) with an error \<open>err\<close> that is not a duplicate-key conflict of an insert. Then
  \<open>syncUp\<close> rejects with \<open>err\<close>; the queue it leaves holds the entries of \<open>post\<close>,
  none of them processed, followed by a fresh entry with the table, operation, payload
  and key of \<open>m\<close>, the next identifier of the generator, the time of the re-queue and
  \<open>synced = False\<close>; \<open>m\<close> itself and the entries of \<open>pre\<close> are gone from the queue;
  and the remote store has received the requests of \<open>pre\<close>, in queue order, then the
  request of \<open>m\<close>, and nothing for the entries of \<open>post\<close>. An entry of \<open>post\<close> is
  changed only if it shares its identifier with an entry of \<open>pre\<close>, which does not happen
  when identifiers are unique. For the queue \<open>[A, B]\<close> with \<open>A\<close> refused, the queue
  afterwards is \<open>B\<close> followed by the fresh copy of \<open>A\<close>.
\<close>

theorem syncUp_requeues_failed_entry:
  assumes "isOnline w"
    and "readQueue w = pre @ m # post"
    and "accepted_all (supabase w) pre"
    and "request_of m = Some rq"
    and "remote_answer (remote_after (supabase w) (requests_of pre)) rq = Some err"
    and "\<not> duplicate_key_conflict m err"
  shows "fst (syncUp w) = Inl err
       \<and> readQueue (snd (syncUp w)) = marked_by (map item_id pre) post @ [requeued m w]
       \<and> (set (map item_id pre) \<inter> set (map item_id post) = {}
            \<longrightarrow> readQueue (snd (syncUp w)) = post @ [requeued m w])
       \<and> supabase (snd (syncUp w)) = remote_after (supabase w) (requests_of pre @ [rq])
       \<and> received (supabase (snd (syncUp w)))
           = received (supabase w) @ requests_of pre @ [rq]"
proof -
  let ?w0 = "console_log StartingSyncUp w"
  have s0: "supabase ?w0 = supabase w"
    by (simp add: console_log_def)
  from process_all_accepted [of ?w0 pre] assms(3) s0 obtain w1 where
    pre: "process_all pre ?w0 = Some w1"
    and s1: "supabase w1 = remote_after (supabase w) (requests_of pre)"
    by auto
  let ?w2 = "w1\<lparr>supabase := remote_after (supabase w1) [rq]\<rparr>"
  have m: "processMutation m w1 = (Inl err, ?w2)"
    using processMutation_refused [OF assms(4) _ assms(6), of w1] assms(5) s1 by simp
  have s2: "supabase ?w2 = remote_after (supabase w) (requests_of pre @ [rq])"
    by (simp add: s1 remote_after_remote_after)
  from syncUp_failure [OF assms(1,2) pre m] s2 show ?thesis
    by (simp add: readQueue_def marked_by_disjoint received_remote_after)
qed

theorem syncUp_requeues_failed_entry_witness:
  "fst (syncUp refused_insert_world) = Inl (PostgrestError ''42501'' ''permission denied'')
   \<and> readQueue refused_insert_world = [mutA, mutB]
   \<and> readQueue (snd (syncUp refused_insert_world))
       = [mutB,
          \<lparr>item_id = ''uuid-0'', table = ''clients'', operation = insert_op,
           payload = [(''id'', JStr ''c1''), (''name'', JStr ''Acme'')], key = None,
           timestamp = ''2024-11-15T10:00:00.000Z'', synced = False\<rparr>]
   \<and> received (supabase (snd (syncUp refused_insert_world)))
       = [Insert ''clients'' [(''id'', JStr ''c1''), (''name'', JStr ''Acme'')]]
   \<and> fst (syncUp refused_update_world) = Inl (PostgrestError ''42501'' ''permission denied'')
   \<and> readQueue refused_update_world = [mutA, mutB, mutC]
   \<and> readQueue (snd (syncUp refused_update_world))
       = [mutC, requeued mutB refused_update_world]
   \<and> received (supabase (snd (syncUp refused_update_world)))
       = [Insert ''clients'' [(''id'', JStr ''c1''), (''name'', JStr ''Acme'')],
          Update ''visits'' [(''notes'', JStr ''done'')] ''v1'']
   \<and> fst (syncUp refused_delete_world) = Inl (PostgrestError ''42501'' ''permission denied'')
   \<and> readQueue refused_delete_world = [mutB, mutC, mutD]
   \<and> readQueue (snd (syncUp refused_delete_world))
       = [mutD, requeued mutC refused_delete_world]
   \<and> received (supabase (snd (syncUp refused_delete_world)))
       = [Update ''visits'' [(''notes'', JStr ''done'')] ''v1'', Delete ''orders'' ''o7'']
   \<and> fst (syncUp refused_upsert_world) = Inl (PostgrestError ''42501'' ''permission denied'')
   \<and> readQueue refused_upsert_world = [mutD, mutA]
   \<and> readQueue (snd (syncUp refused_upsert_world))
       = [mutA, requeued mutD refused_upsert_world]
   \<and> received (supabase (snd (syncUp refused_upsert_world)))
       = [Upsert ''budgets'' [(''id'', JStr ''b1''), (''month'', JNum 202411)]]"
proof -
  let ?err = "PostgrestError ''42501'' ''permission denied''"
  have fresh: "requeued mutA refused_insert_world
       = \<lparr>item_id = ''uuid-0'', table = ''clients'', operation = insert_op,
           payload = [(''id'', JStr ''c1''), (''name'', JStr ''Acme'')], key = None,
           timestamp = ''2024-11-15T10:00:00.000Z'', synced = False\<rparr>"
    by (simp add: requeued_def refused_insert_world_def world_of_def mutA_def nov15_def
          string_of_nat.simps digit_chars)
  have ins: "fst (syncUp refused_insert_world) = Inl ?err
     \<and> readQueue refused_insert_world = [mutA, mutB]
     \<and> readQueue (snd (syncUp refused_insert_world))
         = [mutB, requeued mutA refused_insert_world]
     \<and> received (supabase (snd (syncUp refused_insert_world)))
         = [Insert ''clients'' [(''id'', JStr ''c1''), (''name'', JStr ''Acme'')]]"
    using syncUp_requeues_failed_entry
            [of refused_insert_world "[]" mutA "[mutB]"
                "Insert ''clients'' [(''id'', JStr ''c1''), (''name'', JStr ''Acme'')]" ?err]
    by (simp add: refused_insert_world_def drain_example_defs)
  have upd: "fst (syncUp refused_update_world) = Inl ?err
     \<and> readQueue refused_update_world = [mutA, mutB, mutC]
     \<and> readQueue (snd (syncUp refused_update_world))
         = [mutC, requeued mutB refused_update_world]
     \<and> received (supabase (snd (syncUp refused_update_world)))
         = [Insert ''clients'' [(''id'', JStr ''c1''), (''name'', JStr ''Acme'')],
            Update ''visits'' [(''notes'', JStr ''done'')] ''v1'']"
    using syncUp_requeues_failed_entry
            [of refused_update_world "[mutA]" mutB "[mutC]"
                "Update ''visits'' [(''notes'', JStr ''done'')] ''v1''" ?err]
    by (simp add: refused_update_world_def drain_example_defs)
  have del: "fst (syncUp refused_delete_world) = Inl ?err
     \<and> readQueue refused_delete_world = [mutB, mutC, mutD]
     \<and> readQueue (snd (syncUp refused_delete_world))
         = [mutD, requeued mutC refused_delete_world]
     \<and> received (supabase (snd (syncUp refused_delete_world)))
         = [Update ''visits'' [(''notes'', JStr ''done'')] ''v1'', Delete ''orders'' ''o7'']"
    using syncUp_requeues_failed_entry
            [of refused_delete_world "[mutB]" mutC "[mutD]" "Delete ''orders'' ''o7''" ?err]
    by (simp add: refused_delete_world_def drain_example_defs)
  have ups: "fst (syncUp refused_upsert_world) = Inl ?err
     \<and> readQueue refused_upsert_world = [mutD, mutA]
     \<and> readQueue (snd (syncUp refused_upsert_world))
         = [mutA, requeued mutD refused_upsert_world]
     \<and> received (supabase (snd (syncUp refused_upsert_world)))
         = [Upsert ''budgets'' [(''id'', JStr ''b1''), (''month'', JNum 202411)]]"
    using syncUp_requeues_failed_entry
            [of refused_upsert_world "[]" mutD "[mutA]"
                "Upsert ''budgets'' [(''id'', JStr ''b1''), (''month'', JNum 202411)]" ?err]
    by (simp add: refused_upsert_world_def drain_example_defs)
  from ins upd del ups show ?thesis
    by (simp add: fresh)
qed

section \<open>Sync-up: duplicate-key inserts\<close>

text \<open>
  C2. Let \<open>m\<close> be an insert and \<open>e\<close> an error with the duplicate-key code
  \<^verbatim>\<open>23505\<close>. In whatever world the remote store answers the insert of \<open>m\<close> with
  \<open>e\<close>, processing \<open>m\<close> succeeds. Wherever \<open>m\<close> stands in the queue: when the device
  is online, the store answers the insert of \<open>m\<close> with \<open>e\<close> at the moment it is sent
  and accepts the entries before and after it, \<open>syncUp\<close> resolves and leaves the queue
  empty, and a second \<open>syncUp\<close> right after it resolves too and leaves the queue empty.
  The queue holding exactly that one insert is the case of no entry before or after it.
\<close>

theorem duplicate_insert_is_success:
  assumes "operation m = insert_op" and "error_code e = Some ''23505''"
  shows "(\<forall>w. remote_answer (supabase w) (Insert (table m) (payload m)) = Some e
             \<longrightarrow> fst (processMutation m w) = Inr ())
       \<and> (\<forall>w pre post.
             isOnline w \<and> readQueue w = pre @ m # post
             \<and> accepted_all (supabase w) pre
             \<and> remote_answer (remote_after (supabase w) (requests_of pre))
                 (Insert (table m) (payload m)) = Some e
             \<and> accepted_all
                 (remote_after (supabase w) (requests_of pre @ [Insert (table m) (payload m)]))
                 post
             \<longrightarrow> fst (syncUp w) = Inr JUndefined
               \<and> readQueue (snd (syncUp w)) = []
               \<and> fst (syncUp (snd (syncUp w))) = Inr JUndefined
               \<and> readQueue (snd (syncUp (snd (syncUp w)))) = [])"
proof -
  let ?rq = "Insert (table m) (payload m)"
  have rq: "request_of m = Some ?rq"
    using assms(1) by (simp add: request_of_def)
  have dup: "duplicate_key_conflict m e"
    using assms by (simp add: duplicate_key_conflict_def)
  have one: "fst (processMutation m w) = Inr ()"
    if "remote_answer (supabase w) ?rq = Some e" for w :: world
    using processMutation_accepted(1) [OF rq, of w] that dup by simp
  have drain: "fst (syncUp w) = Inr JUndefined
               \<and> readQueue (snd (syncUp w)) = []
               \<and> fst (syncUp (snd (syncUp w))) = Inr JUndefined
               \<and> readQueue (snd (syncUp (snd (syncUp w)))) = []"
    if on: "isOnline w" and q: "readQueue w = pre @ m # post"
      and a1: "accepted_all (supabase w) pre"
      and a2: "remote_answer (remote_after (supabase w) (requests_of pre)) ?rq = Some e"
      and a3: "accepted_all (remote_after (supabase w) (requests_of pre @ [?rq])) post"
    for w :: world and pre post
  proof -
    let ?w0 = "console_log StartingSyncUp w"
    have s0: "supabase ?w0 = supabase w"
      by (simp add: console_log_def)
    have "accepted_all (supabase w) (pre @ m # post)"
      using a1 a2 a3 dup rq by (simp add: accepted_all_append remote_after_remote_after)
    with process_all_accepted [of ?w0 "readQueue w"] q s0 obtain w1 where
      all: "process_all (readQueue w) ?w0 = Some w1"
      by auto
    note first = syncUp_success [OF on all]
    have w1: "w1 = ?w0\<lparr>supabase := supabase w1, console := console w1\<rparr>"
      by (rule process_all_frame [OF all])
    have "isOnline w1"
      by (subst w1) (simp add: console_log_def on)
    then have onA: "isOnline (snd (syncUp w))" and qA: "readQueue (snd (syncUp w)) = []"
      by (simp_all add: first readQueue_def)
    from syncUp_empty_queue [OF onA qA] first qA show ?thesis
      by (simp add: readQueue_def)
  qed
  from one drain show ?thesis
    by blast
qed

theorem duplicate_insert_is_success_witness:
  "operation mutA = insert_op
   \<and> remote_answer (supabase duplicate_world) (Insert (table mutA) (payload mutA))
       = Some (PostgrestError ''23505'' ''duplicate key value violates unique constraint'')
   \<and> fst (processMutation mutA duplicate_world) = Inr ()
   \<and> readQueue duplicate_world = [mutA]
   \<and> fst (syncUp duplicate_world) = Inr JUndefined
   \<and> readQueue (snd (syncUp duplicate_world)) = []
   \<and> fst (syncUp (snd (syncUp duplicate_world))) = Inr JUndefined
   \<and> readQueue (snd (syncUp (snd (syncUp duplicate_world)))) = []
   \<and> readQueue duplicate_mid_world = [mutB, mutA, mutC]
   \<and> fst (syncUp duplicate_mid_world) = Inr JUndefined
   \<and> readQueue (snd (syncUp duplicate_mid_world)) = []
   \<and> fst (syncUp (snd (syncUp duplicate_mid_world))) = Inr JUndefined
   \<and> readQueue (snd (syncUp (snd (syncUp duplicate_mid_world)))) = []"
proof -
  let ?e = "PostgrestError ''23505'' ''duplicate key value violates unique constraint''"
  have op: "operation mutA = insert_op"
    by (simp add: mutA_def)
  have c: "error_code ?e = Some ''23505''"
    by simp
  note dup = duplicate_insert_is_success [OF op c]
  have r: "remote_answer (supabase duplicate_world) (Insert (table mutA) (payload mutA)) = Some ?e"
    by (simp add: duplicate_world_def drain_example_defs)
  have one: "fst (processMutation mutA duplicate_world) = Inr ()"
    using dup [THEN conjunct1, rule_format, OF r] .
  have q1: "readQueue duplicate_world = [mutA]"
    and q2: "readQueue duplicate_mid_world = [mutB, mutA, mutC]"
    by (simp_all add: duplicate_world_def duplicate_mid_world_def world_of_def readQueue_def)
  have single: "fst (syncUp duplicate_world) = Inr JUndefined
     \<and> readQueue (snd (syncUp duplicate_world)) = []
     \<and> fst (syncUp (snd (syncUp duplicate_world))) = Inr JUndefined
     \<and> readQueue (snd (syncUp (snd (syncUp duplicate_world)))) = []"
    using dup [THEN conjunct2, rule_format, of duplicate_world "[]" "[]"]
    by (simp add: duplicate_world_def drain_example_defs)
  have mid: "fst (syncUp duplicate_mid_world) = Inr JUndefined
     \<and> readQueue (snd (syncUp duplicate_mid_world)) = []
     \<and> fst (syncUp (snd (syncUp duplicate_mid_world))) = Inr JUndefined
     \<and> readQueue (snd (syncUp (snd (syncUp duplicate_mid_world)))) = []"
    using dup [THEN conjunct2, rule_format, of duplicate_mid_world "[mutB]" "[mutC]"]
    by (simp add: duplicate_mid_world_def drain_example_defs)
  from op r one q1 q2 single mid show ?thesis
    by simp
qed

section \<open>Sync-up: the processed count\<close>

text \<open>
  C3, as the code has it. \<open>syncUp\<close> is declared \<^verbatim>\<open>Promise<void>\<close>: on a drain in which
  every entry of the queue is processed with success it resolves with no value, leaves the
  queue empty, has sent the requests of the entries in queue order, and writes the number
  of entries it processed to the console as its last log line. The count is not returned.
\<close>

theorem syncUp_logs_processed_count:
  assumes "isOnline w"
    and "process_all (readQueue w) (console_log StartingSyncUp w) = Some w1"
  shows "fst (syncUp w) = Inr JUndefined
       \<and> readQueue (snd (syncUp w)) = []
       \<and> console (snd (syncUp w)) = console w1 @ [SyncUpCompleted (length (readQueue w))]
       \<and> received (supabase (snd (syncUp w)))
           = received (supabase w) @ requests_of (readQueue w)"
  using syncUp_success [OF assms] received_process_all [OF assms(2)]
  by (simp add: readQueue_def console_log_def)

theorem syncUp_logs_processed_count_witness:
  "isOnline one_insert_world
   \<and> readQueue one_insert_world = [mutA]
   \<and> fst (syncUp one_insert_world) = Inr JUndefined
   \<and> readQueue (snd (syncUp one_insert_world)) = []
   \<and> console (snd (syncUp one_insert_world)) = [StartingSyncUp, SyncUpCompleted 1]
   \<and> received (supabase (snd (syncUp one_insert_world)))
       = [Insert ''clients'' [(''id'', JStr ''c1''), (''name'', JStr ''Acme'')]]"
proof -
  let ?w0 = "console_log StartingSyncUp one_insert_world"
  define w1 where "w1 = snd (processMutation mutA ?w0)"
  have on: "isOnline one_insert_world"
    by (simp add: one_insert_world_def world_of_def)
  have q: "readQueue one_insert_world = [mutA]"
    by (simp add: one_insert_world_def world_of_def readQueue_def)
  have rA: "fst (processMutation mutA ?w0) = Inr ()"
    by (simp add: processMutation_def send_def console_log_def one_insert_world_def
          example_defs)
  have all: "process_all (readQueue one_insert_world) ?w0 = Some w1"
    using process_all_Cons_ok [OF rA, of "[]"] q by (simp add: w1_def)
  have c1: "console w1 = [StartingSyncUp]"
    by (simp add: w1_def processMutation_def send_def console_log_def one_insert_world_def
          example_defs)
  have rec: "received (supabase (snd (syncUp one_insert_world)))
       = [Insert ''clients'' [(''id'', JStr ''c1''), (''name'', JStr ''Acme'')]]"
    by code_simp
  from syncUp_logs_processed_count [OF on all] on q c1 rec show ?thesis
    by simp
qed

text \<open>
  The claim as stated fails: for a queue holding one insert that the remote store
  accepts, the value \<open>syncUp\<close> resolves with is \<^verbatim>\<open>undefined\<close>, not the count 1.
\<close>

theorem syncUp_returns_count_counterexample:
  "isOnline one_insert_world
   \<and> readQueue one_insert_world = [mutA]
   \<and> received (supabase (snd (syncUp one_insert_world)))
       = [Insert ''clients'' [(''id'', JStr ''c1''), (''name'', JStr ''Acme'')]]
   \<and> readQueue (snd (syncUp one_insert_world)) = []
   \<and> fst (syncUp one_insert_world) = Inr JUndefined
   \<and> fst (syncUp one_insert_world) \<noteq> Inr (JNum 1)"
  by code_simp

section \<open>Facts about sync-down\<close>

lemma from_select_eq:
  "from_select tbl fs w
     = (case select_error (supabase w) tbl of
          Some e \<Rightarrow> Inl e | None \<Rightarrow> Inr (fetched_rows (supabase w) tbl fs),
        w\<lparr>selects := selects w @ [(tbl, fs)]\<rparr>)"
  by (simp add: from_select_def fetched_rows_def Let_def split: option.splits)

lemmas syncDown_unfold =
  syncDown_try_def from_select_eq new_Date_def Let_def case_prod_beta
  clients_filters_def budgets_filters_def tasks_filters_def setData_def console_log_def
  syncDown_fetches_def

text \<open>The worlds reached after the first one, two, ... six fetches have been stored.\<close>

lemma syncDown_try_fail_clients:
  assumes "select_error (supabase w) ''clients'' = Some e"
  shows "syncDown_try repId w
           = (Inl e, w\<lparr>selects := selects w @ map snd (take 1 (syncDown_fetches repId w))\<rparr>)"
  using assms by (simp add: syncDown_unfold)

lemma syncDown_try_fail_products:
  assumes "select_error (supabase w) ''clients'' = None"
    and "select_error (supabase w) ''products'' = Some e"
  shows "syncDown_try repId w
           = (Inl e,
              (setData clients (fetched_rows (supabase w) ''clients'' clients_filters) w)
              \<lparr>selects := selects w @ map snd (take 2 (syncDown_fetches repId w))\<rparr>)"
  using assms by (simp add: syncDown_unfold)

lemma syncDown_try_fail_client_products:
  assumes "select_error (supabase w) ''clients'' = None"
    and "select_error (supabase w) ''products'' = None"
    and "select_error (supabase w) ''client_products'' = Some e"
  shows "syncDown_try repId w
           = (Inl e,
              (setData products (fetched_rows (supabase w) ''products'' [])
                (setData clients (fetched_rows (supabase w) ''clients'' clients_filters) w))
              \<lparr>selects := selects w @ map snd (take 3 (syncDown_fetches repId w))\<rparr>)"
  using assms by (simp add: syncDown_unfold)

lemma syncDown_try_fail_budgets:
  assumes "select_error (supabase w) ''clients'' = None"
    and "select_error (supabase w) ''products'' = None"
    and "select_error (supabase w) ''client_products'' = None"
    and "select_error (supabase w) ''budgets'' = Some e"
  shows "syncDown_try repId w
           = (Inl e,
              (setData client_products (fetched_rows (supabase w) ''client_products'' [])
                (setData products (fetched_rows (supabase w) ''products'' [])
                  (setData clients (fetched_rows (supabase w) ''clients'' clients_filters) w)))
              \<lparr>date_calls := date_calls w + 1,
                selects := selects w @ map snd (take 4 (syncDown_fetches repId w))\<rparr>)"
  using assms by (simp add: syncDown_unfold)

lemma syncDown_try_fail_rep_tasks:
  assumes "select_error (supabase w) ''clients'' = None"
    and "select_error (supabase w) ''products'' = None"
    and "select_error (supabase w) ''client_products'' = None"
    and "select_error (supabase w) ''budgets'' = None"
    and "select_error (supabase w) ''rep_tasks'' = Some e"
  shows "syncDown_try repId w
           = (Inl e,
              (setData budgets (fetched_rows (supabase w) ''budgets'' (budgets_filters repId w))
                (setData client_products (fetched_rows (supabase w) ''client_products'' [])
                  (setData products (fetched_rows (supabase w) ''products'' [])
                    (setData clients (fetched_rows (supabase w) ''clients'' clients_filters) w))))
              \<lparr>date_calls := date_calls w + 2,
                selects := selects w @ map snd (take 5 (syncDown_fetches repId w))\<rparr>)"
  using assms by (simp add: syncDown_unfold)

lemma syncDown_try_fail_client_followups:
  assumes "select_error (supabase w) ''clients'' = None"
    and "select_error (supabase w) ''products'' = None"
    and "select_error (supabase w) ''client_products'' = None"
    and "select_error (supabase w) ''budgets'' = None"
    and "select_error (supabase w) ''rep_tasks'' = None"
    and "select_error (supabase w) ''client_followups'' = Some e"
  shows "syncDown_try repId w
           = (Inl e,
              (setData rep_tasks (fetched_rows (supabase w) ''rep_tasks'' (tasks_filters repId w))
                (setData budgets (fetched_rows (supabase w) ''budgets'' (budgets_filters repId w))
                  (setData client_products (fetched_rows (supabase w) ''client_products'' [])
                    (setData products (fetched_rows (supabase w) ''products'' [])
                      (setData clients (fetched_rows (supabase w) ''clients'' clients_filters) w)))))
              \<lparr>date_calls := date_calls w + 2,
                selects := selects w @ map snd (syncDown_fetches repId w)\<rparr>)"
  using assms by (simp add: syncDown_unfold)

lemma syncDown_try_ok:
  assumes "select_error (supabase w) ''clients'' = None"
    and "select_error (supabase w) ''products'' = None"
    and "select_error (supabase w) ''client_products'' = None"
    and "select_error (supabase w) ''budgets'' = None"
    and "select_error (supabase w) ''rep_tasks'' = None"
    and "select_error (supabase w) ''client_followups'' = None"
  shows "syncDown_try repId w
           = (Inr (),
              (setData client_followups (fetched_rows (supabase w) ''client_followups'' [])
                (setData rep_tasks (fetched_rows (supabase w) ''rep_tasks'' (tasks_filters repId w))
                  (setData budgets (fetched_rows (supabase w) ''budgets'' (budgets_filters repId w))
                    (setData client_products (fetched_rows (supabase w) ''client_products'' [])
                      (setData products (fetched_rows (supabase w) ''products'' [])
                        (setData clients (fetched_rows (supabase w) ''clients'' clients_filters) w))))))
              \<lparr>date_calls := date_calls w + 2,
                console := console w @ [SyncDownCompleted],
                selects := selects w @ map snd (syncDown_fetches repId w)\<rparr>)"
  using assms by (simp add: syncDown_unfold)


lemma syncDown_online_fail:
  assumes "isOnline w"
    and "fst (syncDown_try repId (console_log StartingSyncDown w)) = Inl e"
  shows "syncDown repId w
           = (Inl e, console_log (SyncDownFailed e)
                       (snd (syncDown_try repId (console_log StartingSyncDown w))))"
  using assms by (cases "syncDown_try repId (console_log StartingSyncDown w)")
    (simp add: syncDown_def)

lemma syncDown_online_ok:
  assumes "isOnline w"
    and "fst (syncDown_try repId (console_log StartingSyncDown w)) = Inr u"
  shows "syncDown repId w
           = (Inr JUndefined, snd (syncDown_try repId (console_log StartingSyncDown w)))"
  using assms by (cases "syncDown_try repId (console_log StartingSyncDown w)")
    (simp add: syncDown_def)

lemma syncDown_online:
  assumes "isOnline w"
  shows "fst (syncDown repId w)
           = (case first_failure repId w of None \<Rightarrow> Inr JUndefined | Some e \<Rightarrow> Inl e)
       \<and> (\<forall>k. collections (localforage (snd (syncDown repId w))) k
              = (case map_of (fetches_before_failure repId w) k of
                   Some (tbl, fs) \<Rightarrow> Some (fetched_rows (supabase w) tbl fs)
                 | None \<Rightarrow> collections (localforage w) k))
       \<and> mutation_queue (localforage (snd (syncDown repId w))) = mutation_queue (localforage w)
       \<and> active_visit (localforage (snd (syncDown repId w))) = active_visit (localforage w)
       \<and> supabase (snd (syncDown repId w)) = supabase w
       \<and> selects (snd (syncDown repId w))
           = selects w
               @ map snd (take (Suc (length (fetches_before_failure repId w)))
                            (syncDown_fetches repId w))"
    (is "?res \<and> ?coll \<and> ?rest")
proof -
  let ?se = "select_error (supabase w)"
  let ?w0 = "console_log StartingSyncDown w"
  have w0: "supabase ?w0 = supabase w" "localforage ?w0 = localforage w"
    "budgets_filters repId ?w0 = budgets_filters repId w"
    "tasks_filters repId ?w0 = tasks_filters repId w"
    "selects ?w0 = selects w"
    "syncDown_fetches repId ?w0 = syncDown_fetches repId w"
    by (simp_all add: console_log_def budgets_filters_def tasks_filters_def
          syncDown_fetches_def)
  have len: "length (syncDown_fetches repId w) = 6"
    by (simp add: syncDown_fetches_def)
  note obs = first_failure_def fetches_before_failure_def syncDown_fetches_def fetch_ok_def
  note flt = clients_filters_def
  consider
      (f_clients) e where  "?se ''clients'' = Some e"
    | (f_products) e where "?se ''clients'' = None" "?se ''products'' = Some e"
    | (f_client_products) e where "?se ''clients'' = None" "?se ''products'' = None" "?se ''client_products'' = Some e"
    | (f_budgets) e where "?se ''clients'' = None" "?se ''products'' = None" "?se ''client_products'' = None" "?se ''budgets'' = Some e"
    | (f_rep_tasks) e where "?se ''clients'' = None" "?se ''products'' = None" "?se ''client_products'' = None" "?se ''budgets'' = None" "?se ''rep_tasks'' = Some e"
    | (f_client_followups) e where "?se ''clients'' = None" "?se ''products'' = None" "?se ''client_products'' = None" "?se ''budgets'' = None" "?se ''rep_tasks'' = None" "?se ''client_followups'' = Some e"
    | (ok) "?se ''clients'' = None" "?se ''products'' = None" "?se ''client_products'' = None" "?se ''budgets'' = None" "?se ''rep_tasks'' = None" "?se ''client_followups'' = None"
    by (metis option.exhaust)
  then show ?thesis
  proof cases
    case (f_clients e)
    have t: "fst (syncDown_try repId ?w0) = Inl e"
      using syncDown_try_fail_clients [of ?w0 e repId] f_clients by (simp add: w0)
    have r: "syncDown repId w = (Inl e, console_log (SyncDownFailed e) (snd (syncDown_try repId ?w0)))"
      by (rule syncDown_online_fail [OF assms t])
    have ff: "first_failure repId w = Some e"
      using f_clients by (simp add: obs)
    have fb: "fetches_before_failure repId w = take 0 (syncDown_fetches repId w)"
      using f_clients by (simp add: obs)
    have st: "localforage (snd (syncDown repId w)) = localforage (snd (syncDown_try repId ?w0))"
      "supabase (snd (syncDown repId w)) = supabase (snd (syncDown_try repId ?w0))"
      "selects (snd (syncDown repId w)) = selects (snd (syncDown_try repId ?w0))"
      by (simp_all add: r console_log_def)
    have "?coll"
      unfolding st fb using syncDown_try_fail_clients [of ?w0 e repId] f_clients
      by (intro allI, case_tac k) (simp_all add: w0 setData_def syncDown_fetches_def flt)
    moreover have "?rest"
      unfolding st fb using syncDown_try_fail_clients [of ?w0 e repId, unfolded w0] f_clients
      by (simp add: w0 len setData_def console_log_def eval_nat_numeral)
    ultimately show ?thesis
      using r ff by simp
  next
    case (f_products e)
    have t: "fst (syncDown_try repId ?w0) = Inl e"
      using syncDown_try_fail_products [of ?w0 e repId] f_products by (simp add: w0)
    have r: "syncDown repId w = (Inl e, console_log (SyncDownFailed e) (snd (syncDown_try repId ?w0)))"
      by (rule syncDown_online_fail [OF assms t])
    have ff: "first_failure repId w = Some e"
      using f_products by (simp add: obs)
    have fb: "fetches_before_failure repId w = take 1 (syncDown_fetches repId w)"
      using f_products by (simp add: obs)
    have st: "localforage (snd (syncDown repId w)) = localforage (snd (syncDown_try repId ?w0))"
      "supabase (snd (syncDown repId w)) = supabase (snd (syncDown_try repId ?w0))"
      "selects (snd (syncDown repId w)) = selects (snd (syncDown_try repId ?w0))"
      by (simp_all add: r console_log_def)
    have "?coll"
      unfolding st fb using syncDown_try_fail_products [of ?w0 e repId] f_products
      by (intro allI, case_tac k) (simp_all add: w0 setData_def syncDown_fetches_def flt)
    moreover have "?rest"
      unfolding st fb using syncDown_try_fail_products [of ?w0 e repId, unfolded w0] f_products
      by (simp add: w0 len setData_def console_log_def eval_nat_numeral)
    ultimately show ?thesis
      using r ff by simp
  next
    case (f_client_products e)
    have t: "fst (syncDown_try repId ?w0) = Inl e"
      using syncDown_try_fail_client_products [of ?w0 e repId] f_client_products by (simp add: w0)
    have r: "syncDown repId w = (Inl e, console_log (SyncDownFailed e) (snd (syncDown_try repId ?w0)))"
      by (rule syncDown_online_fail [OF assms t])
    have ff: "first_failure repId w = Some e"
      using f_client_products by (simp add: obs)
    have fb: "fetches_before_failure repId w = take 2 (syncDown_fetches repId w)"
      using f_client_products by (simp add: obs)
    have st: "localforage (snd (syncDown repId w)) = localforage (snd (syncDown_try repId ?w0))"
      "supabase (snd (syncDown repId w)) = supabase (snd (syncDown_try repId ?w0))"
      "selects (snd (syncDown repId w)) = selects (snd (syncDown_try repId ?w0))"
      by (simp_all add: r console_log_def)
    have "?coll"
      unfolding st fb using syncDown_try_fail_client_products [of ?w0 e repId] f_client_products
      by (intro allI, case_tac k) (simp_all add: w0 setData_def syncDown_fetches_def flt)
    moreover have "?rest"
      unfolding st fb using syncDown_try_fail_client_products [of ?w0 e repId, unfolded w0] f_client_products
      by (simp add: w0 len setData_def console_log_def eval_nat_numeral)
    ultimately show ?thesis
      using r ff by simp
  next
    case (f_budgets e)
    have t: "fst (syncDown_try repId ?w0) = Inl e"
      using syncDown_try_fail_budgets [of ?w0 e repId] f_budgets by (simp add: w0)
    have r: "syncDown repId w = (Inl e, console_log (SyncDownFailed e) (snd (syncDown_try repId ?w0)))"
      by (rule syncDown_online_fail [OF assms t])
    have ff: "first_failure repId w = Some e"
      using f_budgets by (simp add: obs)
    have fb: "fetches_before_failure repId w = take 3 (syncDown_fetches repId w)"
      using f_budgets by (simp add: obs)
    have st: "localforage (snd (syncDown repId w)) = localforage (snd (syncDown_try repId ?w0))"
      "supabase (snd (syncDown repId w)) = supabase (snd (syncDown_try repId ?w0))"
      "selects (snd (syncDown repId w)) = selects (snd (syncDown_try repId ?w0))"
      by (simp_all add: r console_log_def)
    have "?coll"
      unfolding st fb using syncDown_try_fail_budgets [of ?w0 e repId] f_budgets
      by (intro allI, case_tac k) (simp_all add: w0 setData_def syncDown_fetches_def flt)
    moreover have "?rest"
      unfolding st fb using syncDown_try_fail_budgets [of ?w0 e repId, unfolded w0] f_budgets
      by (simp add: w0 len setData_def console_log_def eval_nat_numeral)
    ultimately show ?thesis
      using r ff by simp
  next
    case (f_rep_tasks e)
    have t: "fst (syncDown_try repId ?w0) = Inl e"
      using syncDown_try_fail_rep_tasks [of ?w0 e repId] f_rep_tasks by (simp add: w0)
    have r: "syncDown repId w = (Inl e, console_log (SyncDownFailed e) (snd (syncDown_try repId ?w0)))"
      by (rule syncDown_online_fail [OF assms t])
    have ff: "first_failure repId w = Some e"
      using f_rep_tasks by (simp add: obs)
    have fb: "fetches_before_failure repId w = take 4 (syncDown_fetches repId w)"
      using f_rep_tasks by (simp add: obs)
    have st: "localforage (snd (syncDown repId w)) = localforage (snd (syncDown_try repId ?w0))"
      "supabase (snd (syncDown repId w)) = supabase (snd (syncDown_try repId ?w0))"
      "selects (snd (syncDown repId w)) = selects (snd (syncDown_try repId ?w0))"
      by (simp_all add: r console_log_def)
    have "?coll"
      unfolding st fb using syncDown_try_fail_rep_tasks [of ?w0 e repId] f_rep_tasks
      by (intro allI, case_tac k) (simp_all add: w0 setData_def syncDown_fetches_def flt)
    moreover have "?rest"
      unfolding st fb using syncDown_try_fail_rep_tasks [of ?w0 e repId, unfolded w0] f_rep_tasks
      by (simp add: w0 len setData_def console_log_def eval_nat_numeral)
    ultimately show ?thesis
      using r ff by simp
  next
    case (f_client_followups e)
    have t: "fst (syncDown_try repId ?w0) = Inl e"
      using syncDown_try_fail_client_followups [of ?w0 e repId] f_client_followups by (simp add: w0)
    have r: "syncDown repId w = (Inl e, console_log (SyncDownFailed e) (snd (syncDown_try repId ?w0)))"
      by (rule syncDown_online_fail [OF assms t])
    have ff: "first_failure repId w = Some e"
      using f_client_followups by (simp add: obs)
    have fb: "fetches_before_failure repId w = take 5 (syncDown_fetches repId w)"
      using f_client_followups by (simp add: obs)
    have st: "localforage (snd (syncDown repId w)) = localforage (snd (syncDown_try repId ?w0))"
      "supabase (snd (syncDown repId w)) = supabase (snd (syncDown_try repId ?w0))"
      "selects (snd (syncDown repId w)) = selects (snd (syncDown_try repId ?w0))"
      by (simp_all add: r console_log_def)
    have "?coll"
      unfolding st fb using syncDown_try_fail_client_followups [of ?w0 e repId] f_client_followups
      by (intro allI, case_tac k) (simp_all add: w0 setData_def syncDown_fetches_def flt)
    moreover have "?rest"
      unfolding st fb using syncDown_try_fail_client_followups [of ?w0 e repId, unfolded w0] f_client_followups
      by (simp add: w0 len setData_def console_log_def eval_nat_numeral)
    ultimately show ?thesis
      using r ff by simp
  next
    case ok
    have t: "fst (syncDown_try repId ?w0) = Inr ()"
      using syncDown_try_ok [of ?w0 repId] ok by (simp add: w0)
    have r: "syncDown repId w = (Inr JUndefined, snd (syncDown_try repId ?w0))"
      by (rule syncDown_online_ok [OF assms t])
    have ff: "first_failure repId w = None"
      using ok by (simp add: obs)
    have fb: "fetches_before_failure repId w = syncDown_fetches repId w"
      using ok by (simp add: obs)
    have st: "localforage (snd (syncDown repId w)) = localforage (snd (syncDown_try repId ?w0))"
      "supabase (snd (syncDown repId w)) = supabase (snd (syncDown_try repId ?w0))"
      "selects (snd (syncDown repId w)) = selects (snd (syncDown_try repId ?w0))"
      by (simp_all add: r)
    have "?coll"
      unfolding st fb using syncDown_try_ok [of ?w0 repId] ok
      by (intro allI, case_tac k) (simp_all add: w0 setData_def syncDown_fetches_def flt)
    moreover have "?rest"
      unfolding st fb using syncDown_try_ok [of ?w0 repId, unfolded w0] ok
      by (simp add: w0 len setData_def console_log_def eval_nat_numeral)
    ultimately show ?thesis
      using r ff by simp
  qed
qed


lemma first_failure_None:
  assumes "first_failure repId w = None"
  shows "fetches_before_failure repId w = syncDown_fetches repId w"
proof (cases "dropWhile (fetch_ok w) (syncDown_fetches repId w)")
  case Nil
  then show ?thesis
    by (simp add: fetches_before_failure_def takeWhile_eq_all_conv)
next
  case (Cons f fs)
  then have "\<not> fetch_ok w f"
    using hd_dropWhile [of "fetch_ok w" "syncDown_fetches repId w"] by simp
  with assms Cons show ?thesis
    by (simp add: first_failure_def fetch_ok_def)
qed

lemma syncDown_resolved:
  assumes "fst (syncDown repId w) = Inr v"
  shows "isOnline w"
    and "\<And>k. collections (localforage (snd (syncDown repId w))) k
            = (case map_of (syncDown_fetches repId w) k of
                 Some (tbl, fs) \<Rightarrow> Some (fetched_rows (supabase w) tbl fs)
               | None \<Rightarrow> collections (localforage w) k)"
proof -
  show on: "isOnline w"
    using assms by (cases "isOnline w") (simp_all add: syncDown_def)
  have "first_failure repId w = None"
    using syncDown_online [OF on, of repId] assms by (simp split: option.splits)
  then have "fetches_before_failure repId w = syncDown_fetches repId w"
    by (rule first_failure_None)
  then show "\<And>k. collections (localforage (snd (syncDown repId w))) k
            = (case map_of (syncDown_fetches repId w) k of
                 Some (tbl, fs) \<Rightarrow> Some (fetched_rows (supabase w) tbl fs)
               | None \<Rightarrow> collections (localforage w) k)"
    using syncDown_online [OF on, of repId] by simp
qed



lemma syncDown_no_error:
  assumes "isOnline w" and "select_error (supabase w) = no_error"
  shows "fst (syncDown repId w) = Inr JUndefined"
  using syncDown_online [OF assms(1), of repId] assms(2)
  by (simp add: first_failure_def syncDown_fetches_def fetch_ok_def no_error_def)

section \<open>Sync-down: wholesale replacement, no rollback\<close>

text \<open>
  C4. When online, \<open>syncDown\<close> makes its six fetches in order (clients, products,
  client-product associations, budgets, rep tasks, client follow-ups). It resolves when
  none of them fails and otherwise rejects with the error of the first fetch that fails.
  Each collection whose fetch came before the failure holds exactly the rows that fetch
  returned, whatever it held before; every other collection, the mutation queue, the
  active-visit marker and the remote store are as they were before the call.
\<close>

theorem syncDown_replaces_collections:
  assumes "isOnline w"
  shows "fst (syncDown repId w)
           = (case first_failure repId w of None \<Rightarrow> Inr JUndefined | Some e \<Rightarrow> Inl e)
       \<and> (\<forall>k. collections (localforage (snd (syncDown repId w))) k
              = (case map_of (fetches_before_failure repId w) k of
                   Some (tbl, fs) \<Rightarrow> Some (fetched_rows (supabase w) tbl fs)
                 | None \<Rightarrow> collections (localforage w) k))
       \<and> mutation_queue (localforage (snd (syncDown repId w))) = mutation_queue (localforage w)
       \<and> active_visit (localforage (snd (syncDown repId w))) = active_visit (localforage w)
       \<and> supabase (snd (syncDown repId w)) = supabase w"
  using syncDown_online [OF assms, of repId] by simp

theorem syncDown_replaces_collections_witness:
  "isOnline sync_world
   \<and> fst (syncDown ''rep-1'' sync_world) = Inr JUndefined
   \<and> getData clients (snd (syncDown ''rep-1'' sync_world)) = three_clients
   \<and> getData products (snd (syncDown ''rep-1'' sync_world)) = []
   \<and> getData client_products (snd (syncDown ''rep-1'' sync_world)) = []
   \<and> getData budgets (snd (syncDown ''rep-1'' sync_world)) = []
   \<and> getData rep_tasks (snd (syncDown ''rep-1'' sync_world)) = []
   \<and> getData client_followups (snd (syncDown ''rep-1'' sync_world)) = []
   \<and> getData products sync_world = [client_row ''old'' ''active'']
   \<and> isOnline broken_world
   \<and> fst (syncDown ''rep-1'' broken_world) = Inl (PostgrestError ''57014'' ''timeout'')
   \<and> getData clients (snd (syncDown ''rep-1'' broken_world)) = three_clients
   \<and> getData products (snd (syncDown ''rep-1'' broken_world)) = [client_row ''old'' ''active'']
   \<and> getData rep_tasks (snd (syncDown ''rep-1'' broken_world)) = [client_row ''old'' ''active'']"
proof -
  have on: "isOnline sync_world"
    by (simp add: sync_world_def world_of_def)
  have se: "select_error (supabase sync_world) = no_error"
    and tb: "tables (supabase sync_world) = clients_only"
    and old: "collections (localforage sync_world) = old_cache"
    by (simp_all add: sync_world_def world_of_def remote_of_def)
  have ff: "first_failure ''rep-1'' sync_world = None"
    and fb: "fetches_before_failure ''rep-1'' sync_world = syncDown_fetches ''rep-1'' sync_world"
    by (simp_all add: first_failure_def fetches_before_failure_def syncDown_fetches_def
          fetch_ok_def se no_error_def)
  have all3: "fetched_rows (supabase sync_world) ''clients'' clients_filters = three_clients"
    by (simp add: fetched_rows_def tb clients_only_def three_clients_def clients_filters_def
          client_row_def column_def)
  have none: "\<And>t fs. t \<noteq> ''clients'' \<Longrightarrow> fetched_rows (supabase sync_world) t fs = []"
    by (simp add: fetched_rows_def tb clients_only_def)
  have first: "fst (syncDown ''rep-1'' sync_world) = Inr JUndefined
   \<and> getData clients (snd (syncDown ''rep-1'' sync_world)) = three_clients
   \<and> getData products (snd (syncDown ''rep-1'' sync_world)) = []
   \<and> getData client_products (snd (syncDown ''rep-1'' sync_world)) = []
   \<and> getData budgets (snd (syncDown ''rep-1'' sync_world)) = []
   \<and> getData rep_tasks (snd (syncDown ''rep-1'' sync_world)) = []
   \<and> getData client_followups (snd (syncDown ''rep-1'' sync_world)) = []"
    using syncDown_replaces_collections [OF on, of "''rep-1''"]
    by (simp add: ff fb getData_def syncDown_fetches_def all3 none)
  have before: "getData products sync_world = [client_row ''old'' ''active'']"
    by (simp add: getData_def old old_cache_def)
  have on': "isOnline broken_world"
    by (simp add: broken_world_def world_of_def)
  have se': "select_error (supabase broken_world) = products_fail"
    and tb': "tables (supabase broken_world) = clients_only"
    and old': "collections (localforage broken_world) = old_cache"
    by (simp_all add: broken_world_def world_of_def remote_of_def)
  have ff': "first_failure ''rep-1'' broken_world = Some (PostgrestError ''57014'' ''timeout'')"
    and fb': "fetches_before_failure ''rep-1'' broken_world
                = [(clients, ''clients'', clients_filters)]"
    by (simp_all add: first_failure_def fetches_before_failure_def syncDown_fetches_def
          fetch_ok_def se' products_fail_def)
  have all3': "fetched_rows (supabase broken_world) ''clients'' clients_filters = three_clients"
    by (simp add: fetched_rows_def tb' clients_only_def three_clients_def clients_filters_def
          client_row_def column_def)
  have second: "fst (syncDown ''rep-1'' broken_world) = Inl (PostgrestError ''57014'' ''timeout'')
   \<and> getData clients (snd (syncDown ''rep-1'' broken_world)) = three_clients
   \<and> getData products (snd (syncDown ''rep-1'' broken_world)) = [client_row ''old'' ''active'']
   \<and> getData rep_tasks (snd (syncDown ''rep-1'' broken_world)) = [client_row ''old'' ''active'']"
    using syncDown_replaces_collections [OF on', of "''rep-1''"]
    by (simp add: ff' fb' getData_def all3' old' old_cache_def)
  from on first before on' second show ?thesis
    by simp
qed

section \<open>Sync-down: which clients are fetched\<close>

text \<open>
  C8, as the code has it. The clients request carries the filter
  \<^verbatim>\<open>.in('status', ['active', 'inactive'])\<close>: after a successful \<open>syncDown\<close> the
  cached clients collection holds exactly the rows of the remote clients table whose
  status is \<^verbatim>\<open>active\<close> or \<^verbatim>\<open>inactive\<close>, in table order.
\<close>

theorem syncDown_caches_active_and_inactive_clients:
  assumes "fst (syncDown repId w) = Inr v"
  shows "getData clients (snd (syncDown repId w))
           = filter (\<lambda>r. column r ''status'' = JStr ''active''
                        \<or> column r ''status'' = JStr ''inactive'')
               (tables (supabase w) ''clients'')"
  using syncDown_resolved(2) [OF assms, of clients]
  by (simp add: getData_def syncDown_fetches_def fetched_rows_def clients_filters_def)

theorem syncDown_caches_active_and_inactive_clients_witness:
  "fst (syncDown ''rep-1'' archived_world) = Inr JUndefined
   \<and> tables (supabase archived_world) ''clients''
       = [client_row ''c1'' ''active'', client_row ''c9'' ''archived'']
   \<and> getData clients (snd (syncDown ''rep-1'' archived_world)) = [client_row ''c1'' ''active'']"
proof -
  have on: "isOnline archived_world"
    and ne: "select_error (supabase archived_world) = no_error"
    by (simp_all add: archived_world_def world_of_def remote_of_def)
  have ok: "fst (syncDown ''rep-1'' archived_world) = Inr JUndefined"
    by (rule syncDown_no_error [OF on ne])
  have tbl: "tables (supabase archived_world) ''clients''
               = [client_row ''c1'' ''active'', client_row ''c9'' ''archived'']"
    by (simp add: archived_world_def archived_clients_def world_of_def remote_of_def)
  from syncDown_caches_active_and_inactive_clients [OF ok] ok tbl show ?thesis
    by (simp add: client_row_def column_def)
qed

text \<open>
  The claim as stated fails: a row of the remote clients table with any other status is
  not in the cached collection after a successful \<open>syncDown\<close>.
\<close>

theorem syncDown_all_clients_counterexample:
  "fst (syncDown ''rep-1'' archived_world) = Inr JUndefined
   \<and> client_row ''c9'' ''archived'' \<in> set (tables (supabase archived_world) ''clients'')
   \<and> client_row ''c9'' ''archived''
       \<notin> set (getData clients (snd (syncDown ''rep-1'' archived_world)))"
proof -
  have on: "isOnline archived_world"
    and ne: "select_error (supabase archived_world) = no_error"
    by (simp_all add: archived_world_def world_of_def remote_of_def)
  have ok: "fst (syncDown ''rep-1'' archived_world) = Inr JUndefined"
    by (rule syncDown_no_error [OF on ne])
  have tbl: "tables (supabase archived_world) ''clients''
               = [client_row ''c1'' ''active'', client_row ''c9'' ''archived'']"
    by (simp add: archived_world_def archived_clients_def world_of_def remote_of_def)
  have "getData clients (snd (syncDown ''rep-1'' archived_world)) = [client_row ''c1'' ''active'']"
    using syncDown_resolved(2) [OF ok, of clients]
    by (simp add: getData_def syncDown_fetches_def fetched_rows_def clients_filters_def tbl
          client_row_def column_def)
  with ok tbl show ?thesis
    by (simp add: client_row_def)
qed

section \<open>Sync-down: which rep tasks are fetched\<close>




section \<open>Sync-up: what happens to a processed entry\<close>

text \<open>
  \<open>dequeueMutation\<close> stores the queue without its head before the head is processed.
  When identifiers are unique, the later \<open>markMutationSynced\<close> for that head finds no
  entry to mark.
\<close>

lemma mark_after_dequeue:
  assumes "dequeueMutation w = (Some m, w1)"
    and "item_id m \<notin> set (map item_id (readQueue w1))"
  shows "readQueue (markMutationSynced (item_id m) w1) = readQueue w1"
  using assms(2)
  by (simp add: markMutationSynced_def readQueue_writeQueue marked_by_single marked_by_disjoint)

text \<open>
  C7 states that a processed entry stays in the queue, marked \<open>synced\<close>, until the purge
  at the end of the drain. The code calls \<open>markMutationSynced\<close> and
  \<open>removeSyncedMutations\<close> to that end, but on an entry that is no longer stored: for the
  queue \<open>[A, B]\<close> and a remote store that accepts every write, the stored queue after
  \<open>A\<close> has been dequeued, processed with success and marked is \<open>[B]\<close>, with \<open>B\<close> not
  marked and \<open>A\<close> absent.
\<close>

theorem processed_entry_is_not_kept_marked:
  "dequeueMutation accepting_world_AB = (Some mutA, writeQueue [mutB] accepting_world_AB)
   \<and> fst (processMutation mutA (writeQueue [mutB] accepting_world_AB)) = Inr ()
   \<and> readQueue (markMutationSynced (item_id mutA)
        (snd (processMutation mutA (writeQueue [mutB] accepting_world_AB)))) = [mutB]
   \<and> synced mutB = False
   \<and> mutA \<noteq> mutB"
proof -
  have q: "readQueue accepting_world_AB = [mutA, mutB]"
    by (simp add: accepting_world_AB_def world_of_def readQueue_def)
  have d: "dequeueMutation accepting_world_AB
             = (Some mutA, writeQueue [mutB] accepting_world_AB)"
    by (simp add: dequeueMutation_def q)
  have p: "fst (processMutation mutA (writeQueue [mutB] accepting_world_AB)) = Inr ()"
    by (simp add: processMutation_def send_def writeQueue_def accepting_world_AB_def
          example_defs)
  have r: "readQueue (snd (processMutation mutA (writeQueue [mutB] accepting_world_AB)))
             = [mutB]"
    using readQueue_processMutation
            [of mutA "writeQueue [mutB] accepting_world_AB"
                "fst (processMutation mutA (writeQueue [mutB] accepting_world_AB))"
                "snd (processMutation mutA (writeQueue [mutB] accepting_world_AB))"]
    by (simp add: readQueue_writeQueue)
  have k: "readQueue (markMutationSynced (item_id mutA)
        (snd (processMutation mutA (writeQueue [mutB] accepting_world_AB)))) = [mutB]"
    unfolding markMutationSynced_def readQueue_writeQueue r
    by (simp add: mutA_def mutB_def)
  from d p k show ?thesis
    by (simp add: mutA_def mutB_def)
qed

section \<open>The offline-fallback read wrapper\<close>

text \<open>
  C6. \<open>withOfflineFallback\<close> always ends in a value. Offline, its result does not
  depend on the remote operation (which is never run): it is the result of the local
  operation, or the fallback value when the local operation fails. Online, it is the
  result of the remote operation when that succeeds, otherwise the result of the local
  operation (run after the remote one), otherwise the fallback value.
\<close>

theorem withOfflineFallback_never_throws:
  "(\<exists>v w'. withOfflineFallback remoteOp localOp fallbackValue w = (Inr v, w'))
   \<and> (\<not> isOnline w \<longrightarrow>
        withOfflineFallback remoteOp localOp fallbackValue w
          = withOfflineFallback remoteOp' localOp fallbackValue w
        \<and> (\<forall>v w1. localOp w = (Inr v, w1) \<longrightarrow>
              withOfflineFallback remoteOp localOp fallbackValue w = (Inr v, w1))
        \<and> (\<forall>e w1. localOp w = (Inl e, w1) \<longrightarrow>
              fst (withOfflineFallback remoteOp localOp fallbackValue w) = Inr fallbackValue))
   \<and> (isOnline w \<longrightarrow>
        (\<forall>v w1. remoteOp w = (Inr v, w1) \<longrightarrow>
              withOfflineFallback remoteOp localOp fallbackValue w = (Inr v, w1))
        \<and> (\<forall>e w1 v w2. remoteOp w = (Inl e, w1)
              \<and> localOp (console_log (SupabaseOperationFailed e) w1) = (Inr v, w2) \<longrightarrow>
              withOfflineFallback remoteOp localOp fallbackValue w = (Inr v, w2))
        \<and> (\<forall>e w1 e' w2. remoteOp w = (Inl e, w1)
              \<and> localOp (console_log (SupabaseOperationFailed e) w1) = (Inl e', w2) \<longrightarrow>
              fst (withOfflineFallback remoteOp localOp fallbackValue w) = Inr fallbackValue))"
proof (cases "isOnline w")
  case False
  then show ?thesis
    by (cases "localOp w") (auto simp: withOfflineFallback_def split: sum.splits)
next
  case True
  show ?thesis
  proof (cases "remoteOp w")
    case (Pair r w1)
    show ?thesis
    proof (cases r)
      case (Inr v)
      with True Pair show ?thesis
        by (simp add: withOfflineFallback_def)
    next
      case (Inl e)
      with True Pair show ?thesis
        by (cases "localOp (console_log (SupabaseOperationFailed e) w1)")
           (auto simp: withOfflineFallback_def split: sum.splits)
    qed
  qed
qed

theorem withOfflineFallback_never_throws_witness:
  "\<not> isOnline offline_world
   \<and> withOfflineFallback remote_fails local_clients [] offline_world
       = (Inr [client_row ''old'' ''active''], offline_world)
   \<and> fst (withOfflineFallback remote_fails local_fails [] offline_world) = Inr []
   \<and> isOnline sync_world
   \<and> withOfflineFallback local_clients local_fails [] sync_world
       = (Inr [client_row ''old'' ''active''], sync_world)
   \<and> withOfflineFallback remote_fails local_clients [] sync_world
       = (Inr [client_row ''old'' ''active''],
          console_log (SupabaseOperationFailed (Error ''Failed to fetch'')) sync_world)
   \<and> fst (withOfflineFallback remote_fails local_fails [] sync_world) = Inr []"
proof -
  have off: "\<not> isOnline offline_world" and on: "isOnline sync_world"
    by (simp_all add: offline_world_def sync_world_def world_of_def)
  have l1: "local_clients offline_world = (Inr [client_row ''old'' ''active''], offline_world)"
    by (simp add: local_clients_def getData_def offline_world_def world_of_def old_cache_def)
  have l2: "local_fails offline_world = (Inl (Error ''storage unavailable''), offline_world)"
    by (simp add: local_fails_def)
  have r1: "local_clients sync_world = (Inr [client_row ''old'' ''active''], sync_world)"
    by (simp add: local_clients_def getData_def sync_world_def world_of_def old_cache_def)
  have r2: "remote_fails sync_world = (Inl (Error ''Failed to fetch''), sync_world)"
    by (simp add: remote_fails_def)
  let ?w = "console_log (SupabaseOperationFailed (Error ''Failed to fetch'')) sync_world"
  have l3: "local_clients ?w = (Inr [client_row ''old'' ''active''], ?w)"
    by (simp add: local_clients_def getData_def console_log_def sync_world_def world_of_def
          old_cache_def)
  have l4: "local_fails ?w = (Inl (Error ''storage unavailable''), ?w)"
    by (simp add: local_fails_def)
  from withOfflineFallback_never_throws
         [of remote_fails local_clients "[]" offline_world remote_fails]
       withOfflineFallback_never_throws
         [of remote_fails local_fails "[]" offline_world remote_fails]
       withOfflineFallback_never_throws
         [of local_clients local_fails "[]" sync_world remote_fails]
       withOfflineFallback_never_throws
         [of remote_fails local_clients "[]" sync_world remote_fails]
       withOfflineFallback_never_throws
         [of remote_fails local_fails "[]" sync_world remote_fails]
       off on l1 l2 r1 r2 l3 l4
  show ?thesis
    by simp
qed

section \<open>Starting a visit while one is active\<close>

lemmas visit_defs =
  handleStartVisit_def show_toast_def new_uuid_def new_Date_def isNetworkOnline_def
  send_def storageSetActiveVisit_def storageGetActiveVisit_def enqueueMutation_def Let_def

text \<open>
  C10 requires that a visit cannot be started while the store holds an active-visit
  marker. The handler guards against this with the page's own \<open>activeVisit\<close> state, the
  copy of the marker that the page loads, and does not read the store. While the page has
  not loaded the marker (its copy is still empty) and the store holds one, the handler
  goes through: for a selected client and an online device it sends the insert of a
  second visit to the remote store, overwrites the stored marker with the new visit and
  reports success.
\<close>

theorem handleStartVisit_overwrites_stored_marker:
  "storageGetActiveVisit visiting_world = Some running_visit
   \<and> received (supabase visiting_world) = []
   \<and> received (supabase (snd (handleStartVisit ''rep-1'' stale_page visiting_world)))
       = [Insert ''visits''
            [(''id'', JStr ''uuid-0''), (''rep_id'', JStr ''rep-1''),
             (''client_id'', JStr ''c1''), (''visit_date'', JStr ''2024-11-15''),
             (''check_in_time'', JStr ''2024-11-15T10:00:00.000Z''), (''notes'', JNull),
             (''created_at'', JStr ''2024-11-15T10:00:00.000Z''),
             (''updated_at'', JStr ''2024-11-15T10:00:00.000Z'')]]
   \<and> storageGetActiveVisit (snd (handleStartVisit ''rep-1'' stale_page visiting_world))
       = Some \<lparr>visit_id = ''uuid-0'', client_id = JStr ''c1'',
                start_time = ''2024-11-15T10:00:00.000Z'', visit_notes = None\<rparr>
   \<and> toasts (fst (handleStartVisit ''rep-1'' stale_page visiting_world))
       = [toast_success ''Visit started successfully'']"
  by (simp add: visit_defs stale_page_def visiting_world_def running_visit_def remote_of_def
        no_error_def no_rows_def accept_all_def nov15_def client_row_def column_def
        string_of_nat.simps digit_chars)

section \<open>Offline calls\<close>

text \<open>
  Every select request a call sends is recorded in \<open>selects\<close>, and every write request
  in \<open>received\<close>. An online sync-down sends at least one select request.
\<close>

lemma syncDown_online_fetches:
  assumes "isOnline w"
  shows "selects (snd (syncDown repId w)) \<noteq> selects w"
  using syncDown_online [OF assms, of repId]
  by (simp add: syncDown_fetches_def)

text \<open>
  C5. Whenever the online flag is false, \<open>syncUp\<close> and \<open>syncDown\<close> both fail at once
  with the error \<^verbatim>\<open>Cannot sync while offline\<close>, and the world they return is the world
  they were given: no select and no write request was sent to the remote store, nothing
  was dequeued, and the mutation queue and every cached collection are as before.
\<close>

theorem offline_sync_fails_fast:
  assumes "\<not> isOnline w"
  shows "syncUp w = (Inl (Error ''Cannot sync while offline''), w)
       \<and> syncDown repId w = (Inl (Error ''Cannot sync while offline''), w)
       \<and> selects (snd (syncDown repId w)) = selects w
       \<and> selects (snd (syncUp w)) = selects w
       \<and> received (supabase (snd (syncDown repId w))) = received (supabase w)
       \<and> received (supabase (snd (syncUp w))) = received (supabase w)
       \<and> readQueue (snd (syncUp w)) = readQueue w
       \<and> localforage (snd (syncUp w)) = localforage w
       \<and> localforage (snd (syncDown repId w)) = localforage w"
  using assms by (simp add: syncUp_def syncDown_def)

theorem offline_sync_fails_fast_witness:
  "\<not> isOnline offline_world
   \<and> syncUp offline_world = (Inl (Error ''Cannot sync while offline''), offline_world)
   \<and> syncDown ''rep-1'' offline_world
       = (Inl (Error ''Cannot sync while offline''), offline_world)
   \<and> selects (snd (syncDown ''rep-1'' offline_world)) = []
   \<and> received (supabase (snd (syncUp offline_world))) = []
   \<and> readQueue (snd (syncUp offline_world)) = [mutA, mutB]"
proof -
  have off: "\<not> isOnline offline_world"
    by (simp add: offline_world_def world_of_def)
  have q: "readQueue offline_world = [mutA, mutB]"
    and s: "selects offline_world = []"
    and r: "received (supabase offline_world) = []"
    by (simp_all add: offline_world_def world_of_def remote_of_def readQueue_def)
  from offline_sync_fails_fast [OF off, of "''rep-1''"] off q s r show ?thesis
    by simp
qed

end
